theory Spec2Isabelle
  imports Complex_Main
begin

section \<open>API client: the configurable API URL (lib/api.ts)\<close>

text \<open>
  The browser's \<^verbatim>\<open>localStorage\<close> is a dictionary from keys to strings;
  \<^verbatim>\<open>getItem\<close> of a missing key is \<^verbatim>\<open>null\<close>.
\<close>

type_synonym localStorage = "string \<rightharpoonup> string"

text \<open>
  \<^verbatim>\<open>url.replace(/\/+$/, "")\<close>: the regular expression is tried at every position from the
  left; at a position it matches when the character there is a slash and everything after
  it up to the end of the string is a slash too. The first match is replaced by the empty
  string, and since the match ends at the end of the string nothing follows it.
\<close>

fun replace_trailing_slashes :: "string \<Rightarrow> string" where
  "replace_trailing_slashes [] = []"
| "replace_trailing_slashes (c # cs) =
     (if c = CHR ''/'' \<and> list_all (\<lambda>d. d = CHR ''/'') cs then []
      else c # replace_trailing_slashes cs)"

text \<open>
  \<^verbatim>\<open>getApiUrl\<close> returns \<^verbatim>\<open>localStorage.getItem("aegis_api_url") || DEFAULT_API_URL\<close>:
  a missing key and the empty string are both falsy. \<^verbatim>\<open>DEFAULT_API_URL\<close> is the build-time
  value \<^verbatim>\<open>import.meta.env.VITE_API_URL\<close>; it is a parameter here.
\<close>

definition getApiUrl :: "string \<Rightarrow> localStorage \<Rightarrow> string" where
  "getApiUrl DEFAULT_API_URL ls =
     (case ls ''aegis_api_url'' of
        None \<Rightarrow> DEFAULT_API_URL
      | Some v \<Rightarrow> if v = [] then DEFAULT_API_URL else v)"

definition setApiUrl :: "string \<Rightarrow> localStorage \<Rightarrow> localStorage" where
  "setApiUrl url ls = ls(''aegis_api_url'' \<mapsto> replace_trailing_slashes url)"

text \<open>
  The same said directly: the string with all its trailing slashes removed. The two are
  shown equal below (\<open>replace_is_without\<close>).
\<close>

definition without_trailing_slashes :: "string \<Rightarrow> string" where
  "without_trailing_slashes s = rev (dropWhile (\<lambda>c. c = CHR ''/'') (rev s))"

section \<open>Registration form (pages/Register.tsx)\<close>

text \<open>
  The component's state. \<^verbatim>\<open>error\<close> is \<^verbatim>\<open>string | null\<close>.
\<close>

record RegisterState =
  fullName :: string
  email :: string
  password :: string
  confirmPassword :: string
  showPassword :: bool
  loading :: bool
  error :: "string option"

text \<open>
  What one run of \<^verbatim>\<open>handleSubmit\<close> leaves behind: the component state, the calls made to
  the context's \<^verbatim>\<open>register(email, password, full_name)\<close> in order, and the route navigated
  to, if any.
\<close>

record SubmitOutcome =
  state_after :: RegisterState
  register_calls :: "(string \<times> string \<times> string) list"
  navigated :: "string option"

text \<open>
  \<^verbatim>\<open>handleSubmit\<close>. The awaited \<^verbatim>\<open>register\<close> either resolves (\<open>Inr ()\<close>) or throws an error
  whose \<^verbatim>\<open>message\<close> is the \<open>Inl\<close> value; \<^verbatim>\<open>err.message || "Registration failed"\<close> replaces an
  empty message. An empty string is the only falsy string, so \<^verbatim>\<open>!fullName\<close> is
  \<open>fullName = []\<close>.
\<close>

definition handleSubmit ::
  "(string \<Rightarrow> string \<Rightarrow> string \<Rightarrow> string + unit) \<Rightarrow> RegisterState \<Rightarrow> SubmitOutcome" where
  "handleSubmit register st =
     (if fullName st = [] \<or> email st = [] \<or> password st = [] \<or> confirmPassword st = [] then
        \<lparr>state_after = st\<lparr>error := Some ''Please fill in all fields''\<rparr>,
         register_calls = [], navigated = None\<rparr>
      else if length (password st) < 6 then
        \<lparr>state_after = st\<lparr>error := Some ''Password must be at least 6 characters''\<rparr>,
         register_calls = [], navigated = None\<rparr>
      else if password st \<noteq> confirmPassword st then
        \<lparr>state_after = st\<lparr>error := Some ''Passwords do not match''\<rparr>,
         register_calls = [], navigated = None\<rparr>
      else
        (case register (email st) (password st) (fullName st) of
           Inr _ \<Rightarrow>
             \<lparr>state_after = st\<lparr>loading := False, error := None\<rparr>,
              register_calls = [(email st, password st, fullName st)],
              navigated = Some ''/''\<rparr>
         | Inl message \<Rightarrow>
             \<lparr>state_after = st\<lparr>loading := False,
                error := Some (if message = [] then ''Registration failed'' else message)\<rparr>,
              register_calls = [(email st, password st, fullName st)],
              navigated = None\<rparr>))"

section \<open>API data model (lib/api.ts)\<close>

text \<open>
  The interfaces \<^verbatim>\<open>Finding\<close>, \<^verbatim>\<open>ESSSummary\<close> and \<^verbatim>\<open>ScanResponse\<close>. A JavaScript
  \<^verbatim>\<open>number\<close> is a real here; an optional field (\<^verbatim>\<open>file_path?\<close>) and a nullable one are
  options. The fields \<^verbatim>\<open>type\<close> and \<^verbatim>\<open>value\<close> are written \<open>ftype\<close> and \<open>fvalue\<close>.
\<close>

record Finding =
  ftype :: string
  fvalue :: string
  value_masked :: string
  snippet :: string
  confidence :: real
  risk :: string
  annotation :: string
  file_path :: "string option"
  source :: "string option"
  source_url :: "string option"
  platform :: "string option"
  content_type :: "string option"

record ESSSummary =
  max_ess :: real
  avg_ess :: real
  label :: string
  color :: string
  total_sources :: real
  all_types :: "string list"

record ScanResponse =
  findings :: "Finding list"
  ess_summary :: "ESSSummary option"
  total_sources_scanned :: real
  scan_duration :: real

text \<open>
  Request bodies are object literals sent through \<^verbatim>\<open>JSON.stringify\<close>: an object is the list
  of its keys with their values, in the order written.
\<close>

datatype json =
  JString string
| JNumber real
| JNull
| JArray "json list"
| JObject "(string \<times> json) list"

fun object_keys :: "json \<Rightarrow> string list" where
  "object_keys (JObject kvs) = map fst kvs"
| "object_keys _ = []"

text \<open>Every string that stands as a value anywhere inside a JSON value.\<close>

primrec json_strings :: "json \<Rightarrow> string list" where
  "json_strings (JString s) = [s]"
| "json_strings (JNumber n) = []"
| "json_strings JNull = []"
| "json_strings (JArray xs) = concat (map json_strings xs)"
| "json_strings (JObject kvs) = concat (map snd (map (map_prod id json_strings) kvs))"

text \<open>
  A Finding as \<^verbatim>\<open>JSON.stringify\<close> writes it: every property it has; an optional one that is
  \<^verbatim>\<open>undefined\<close> is left out.
\<close>

definition optional_field :: "string \<Rightarrow> string option \<Rightarrow> (string \<times> json) list" where
  "optional_field k v = (case v of None \<Rightarrow> [] | Some s \<Rightarrow> [(k, JString s)])"

definition finding_json :: "Finding \<Rightarrow> json" where
  "finding_json f =
     JObject ([(''type'', JString (ftype f)),
               (''value'', JString (fvalue f)),
               (''value_masked'', JString (value_masked f)),
               (''snippet'', JString (snippet f)),
               (''confidence'', JNumber (confidence f)),
               (''risk'', JString (risk f)),
               (''annotation'', JString (annotation f))]
              @ optional_field ''file_path'' (file_path f)
              @ optional_field ''source'' (source f)
              @ optional_field ''source_url'' (source_url f)
              @ optional_field ''platform'' (platform f)
              @ optional_field ''content_type'' (content_type f))"

section \<open>Scan results: history save and report download\<close>

text \<open>
  \<^verbatim>\<open>ScanResultsProps\<close> declares \<^verbatim>\<open>scanType\<close> and \<^verbatim>\<open>target\<close> as strings, and the GitHub,
  Pastebin and social tabs pass both. The combined tab mounts
  \<^verbatim>\<open><ScanResults results={results} />\<close> without them: there both are \<^verbatim>\<open>undefined\<close>, written
  \<open>None\<close> here, and \<^verbatim>\<open>JSON.stringify\<close> leaves a property whose value is \<^verbatim>\<open>undefined\<close> out of
  the body (\<open>optional_field\<close>).

  \<^verbatim>\<open>ScanResults\<close> saves every result set to the history on mount: the argument of
  \<^verbatim>\<open>saveScanHistory\<close>, which \<^verbatim>\<open>post\<close> sends as the body of \<^verbatim>\<open>/history/save\<close>.
  \<^verbatim>\<open>ess_summary?.max_ess ?? 0\<close> is 0 when the summary is null.
\<close>

definition history_item :: "ScanResponse \<Rightarrow> string option \<Rightarrow> string option \<Rightarrow> json" where
  "history_item results scanType target =
     JObject (optional_field ''scan_type'' scanType
              @ optional_field ''target'' target
              @ [(''findings_count'', JNumber (real (length (findings results)))),
                 (''max_ess'', JNumber (case ess_summary results of None \<Rightarrow> 0 | Some s \<Rightarrow> max_ess s)),
                 (''ess_label'', JString (case ess_summary results of None \<Rightarrow> [] | Some s \<Rightarrow> label s)),
                 (''sources_scanned'', JNumber (total_sources_scanned results)),
                 (''scan_duration'', JNumber (scan_duration results))])"

text \<open>
  \<^verbatim>\<open>ReportDownloadButton.handleDownload\<close>: nothing is sent for an empty list; otherwise one POST
  to \<^verbatim>\<open>${apiUrl}/report/html\<close> with the findings as they are. The result is the request
  (URL and body), if one is made. (The file name of the download is computed from
  \<^verbatim>\<open>target\<close> only after the response has arrived.)
\<close>

definition handleDownload ::
  "Finding list \<Rightarrow> string option \<Rightarrow> string option \<Rightarrow> real \<Rightarrow> string \<Rightarrow> (string \<times> json) option" where
  "handleDownload fs scanType target filesScanned apiUrl =
     (if length fs = 0 then None
      else Some (apiUrl @ ''/report/html'',
                 JObject ([(''findings'', JArray (map finding_json fs)),
                           (''ess_results'', JArray [])]
                          @ optional_field ''scan_type'' scanType
                          @ optional_field ''target'' target
                          @ [(''files_scanned'', JNumber filesScanned)])))"

text \<open>
  \<^verbatim>\<open>ScanResults\<close> renders the download button only when there are findings, and hands it
  the response's findings, its own \<^verbatim>\<open>scanType\<close> and \<^verbatim>\<open>target\<close>, and
  \<^verbatim>\<open>total_sources_scanned\<close>: the request a click on it sends.
\<close>

definition report_request ::
  "ScanResponse \<Rightarrow> string option \<Rightarrow> string option \<Rightarrow> string \<Rightarrow> (string \<times> json) option" where
  "report_request results scanType target apiUrl =
     (if length (findings results) > 0
      then handleDownload (findings results) scanType target (total_sources_scanned results) apiUrl
      else None)"

text \<open>
  A response as the backend's \<^verbatim>\<open>/scan/github/single\<close> returns one: a single Aadhaar finding
  in one file.
\<close>

definition example_finding :: Finding where
  "example_finding =
     \<lparr>ftype = ''AADHAAR'', fvalue = ''234123412346'', value_masked = ''23********46'',
      snippet = ''id: 234123412346'', confidence = 95 / 100, risk = ''Critical'',
      annotation = [], file_path = Some ''data/users.csv'', source = Some ''data/users.csv'',
      source_url = Some ''https://github.com/octocat/hello/blob/main/data/users.csv'',
      platform = Some ''github'', content_type = None\<rparr>"

definition example_response :: ScanResponse where
  "example_response =
     \<lparr>findings = [example_finding],
      ess_summary = Some \<lparr>max_ess = 8, avg_ess = 8, label = ''HIGH'', color = ''#f97316'',
                             total_sources = 1, all_types = [''AADHAAR'']\<rparr>,
      total_sources_scanned = 1, scan_duration = 2\<rparr>"

text \<open>A response of a scan that found nothing.\<close>

definition clean_response :: ScanResponse where
  "clean_response =
     \<lparr>findings = [], ess_summary = None, total_sources_scanned = 5, scan_duration = 1\<rparr>"

section \<open>Combined scan: merging two responses (CombinedTab.handleScan)\<close>

text \<open>
  \<^verbatim>\<open>s?.max_ess || 0\<close>: 0 for a null summary; a number that is 0 is falsy and gives 0 as well.
  \<^verbatim>\<open>s?.label || "Unknown"\<close>: the fallback for a null summary and for an empty string.
\<close>

definition num_or_zero :: "(ESSSummary \<Rightarrow> real) \<Rightarrow> ESSSummary option \<Rightarrow> real" where
  "num_or_zero field s = (case s of None \<Rightarrow> 0 | Some x \<Rightarrow> if field x = 0 then 0 else field x)"

definition str_or :: "(ESSSummary \<Rightarrow> string) \<Rightarrow> string \<Rightarrow> ESSSummary option \<Rightarrow> string" where
  "str_or field fallback s =
     (case s of None \<Rightarrow> fallback | Some x \<Rightarrow> if field x = [] then fallback else field x)"

definition list_or_empty :: "ESSSummary option \<Rightarrow> string list" where
  "list_or_empty s = (case s of None \<Rightarrow> [] | Some x \<Rightarrow> all_types x)"

text \<open>A nullable object is truthy when it is not null.\<close>

definition truthy :: "'a option \<Rightarrow> bool" where
  "truthy x \<longleftrightarrow> x \<noteq> None"

text \<open>\<^verbatim>\<open>[...new Set(xs)]\<close>: a Set keeps the first occurrence of each element, in order.\<close>

fun set_spread :: "string list \<Rightarrow> string list \<Rightarrow> string list" where
  "set_spread seen [] = []"
| "set_spread seen (x # xs) =
     (if x \<in> set seen then set_spread seen xs else x # set_spread (x # seen) xs)"

definition combined :: "ScanResponse \<Rightarrow> ScanResponse \<Rightarrow> ScanResponse" where
  "combined ghRes pbRes =
     \<lparr>findings = findings ghRes @ findings pbRes,
      ess_summary =
        (if truthy (ess_summary ghRes) \<or> truthy (ess_summary pbRes) then
           Some \<lparr>max_ess = max (num_or_zero max_ess (ess_summary ghRes))
                               (num_or_zero max_ess (ess_summary pbRes)),
                 avg_ess = (num_or_zero avg_ess (ess_summary ghRes)
                            + num_or_zero avg_ess (ess_summary pbRes)) / 2,
                 label = (if num_or_zero max_ess (ess_summary ghRes)
                             \<ge> num_or_zero max_ess (ess_summary pbRes)
                          then str_or label ''Unknown'' (ess_summary ghRes)
                          else str_or label ''Unknown'' (ess_summary pbRes)),
                 color = (if num_or_zero max_ess (ess_summary ghRes)
                             \<ge> num_or_zero max_ess (ess_summary pbRes)
                          then str_or color ''#888'' (ess_summary ghRes)
                          else str_or color ''#888'' (ess_summary pbRes)),
                 total_sources = num_or_zero total_sources (ess_summary ghRes)
                                 + num_or_zero total_sources (ess_summary pbRes),
                 all_types = set_spread [] (list_or_empty (ess_summary ghRes)
                                            @ list_or_empty (ess_summary pbRes))\<rparr>
         else None),
      total_sources_scanned = total_sources_scanned ghRes + total_sources_scanned pbRes,
      scan_duration = max (scan_duration ghRes) (scan_duration pbRes)\<rparr>"

text \<open>The invariant of a scan response: the summary is null exactly when nothing was found.\<close>

definition summary_null_iff_empty :: "ScanResponse \<Rightarrow> bool" where
  "summary_null_iff_empty r \<longleftrightarrow> (ess_summary r = None) = (findings r = [])"

text \<open>
  The arithmetic mean of the per-source scores, as section 4.4 of the specification defines
  \<^verbatim>\<open>avg_ess\<close> (taken over the sources that have a finding; 0 for no source).
\<close>

definition mean_score :: "real list \<Rightarrow> real" where
  "mean_score scores = (if scores = [] then 0 else sum_list scores / real (length scores))"

section \<open>Authentication context (contexts/AuthContext.tsx)\<close>

text \<open>
  \<^verbatim>\<open>interface User { email; full_name }\<close>; the fields carry the prefix \<open>u_\<close> here.
  The provider's state (\<^verbatim>\<open>user\<close>, \<^verbatim>\<open>token\<close>, \<^verbatim>\<open>isLoading\<close>) is kept together with the
  browser's \<^verbatim>\<open>localStorage\<close>, which the actions read and write.
\<close>

record User =
  u_email :: string
  u_full_name :: string

record AuthProvider =
  user :: "User option"
  token :: "string option"
  isLoading :: bool
  storage :: localStorage

definition TOKEN_KEY :: string where
  "TOKEN_KEY = ''aegis_token''"

definition USER_KEY :: string where
  "USER_KEY = ''aegis_user''"

definition initial_provider :: "localStorage \<Rightarrow> AuthProvider" where
  "initial_provider ls = \<lparr>user = None, token = None, isLoading = True, storage = ls\<rparr>"

text \<open>
  \<^verbatim>\<open>isAuthenticated: !!token && !!user\<close>. A token is truthy when it is neither null nor the
  empty string; a user object is truthy when it is not null.
\<close>

definition isAuthenticated :: "AuthProvider \<Rightarrow> bool" where
  "isAuthenticated w \<longleftrightarrow> (token w \<noteq> None \<and> token w \<noteq> Some []) \<and> user w \<noteq> None"

text \<open>
  \<^verbatim>\<open>JSON.parse\<close> is the runtime's: on a text it throws a SyntaxError or returns a value, and
  \<^verbatim>\<open>setUser\<close> receives that value as \<^verbatim>\<open>User | null\<close>. It is a parameter of the restore.
\<close>

datatype ParseOutcome = Throws | Parsed "User option"

text \<open>
  The effect run on mount. Both stored items must be truthy. Inside the \<^verbatim>\<open>try\<close>,
  \<^verbatim>\<open>setToken(storedToken)\<close> runs first and \<^verbatim>\<open>JSON.parse(storedUser)\<close> is evaluated after it,
  before \<^verbatim>\<open>setUser\<close> is called; the \<^verbatim>\<open>catch\<close> removes the two items. \<^verbatim>\<open>setIsLoading(false)\<close>
  runs in every case.
\<close>

definition restore :: "(string \<Rightarrow> ParseOutcome) \<Rightarrow> AuthProvider \<Rightarrow> AuthProvider" where
  "restore JSON_parse w =
     (case (storage w TOKEN_KEY, storage w USER_KEY) of
        (Some storedToken, Some storedUser) \<Rightarrow>
          if storedToken \<noteq> [] \<and> storedUser \<noteq> [] then
            (case JSON_parse storedUser of
               Parsed u \<Rightarrow> w\<lparr>token := Some storedToken, user := u, isLoading := False\<rparr>
             | Throws \<Rightarrow>
                 w\<lparr>token := Some storedToken,
                   storage := (storage w)(TOKEN_KEY := None, USER_KEY := None),
                   isLoading := False\<rparr>)
          else w\<lparr>isLoading := False\<rparr>
      | _ \<Rightarrow> w\<lparr>isLoading := False\<rparr>)"

text \<open>
  The server's answer to \<^verbatim>\<open>/auth/login\<close> and \<^verbatim>\<open>/auth/register\<close>: not ok, with the
  \<^verbatim>\<open>detail\<close> of its body if it has one, or ok with the session data.
\<close>

record SessionData =
  access_token :: string
  user_email :: string
  user_name :: string

datatype AuthResponse = NotOk "string option" | Ok SessionData

definition detail_or :: "string \<Rightarrow> string option \<Rightarrow> string" where
  "detail_or fallback d = (case d of None \<Rightarrow> fallback | Some m \<Rightarrow> if m = [] then fallback else m)"

definition store_session :: "(User \<Rightarrow> string) \<Rightarrow> SessionData \<Rightarrow> AuthProvider \<Rightarrow> AuthProvider" where
  "store_session JSON_stringify data w =
     (let userObj = \<lparr>u_email = user_email data, u_full_name = user_name data\<rparr>
      in w\<lparr>storage := (storage w)(TOKEN_KEY \<mapsto> access_token data,
                                    USER_KEY \<mapsto> JSON_stringify userObj),
           token := Some (access_token data),
           user := Some userObj\<rparr>)"

text \<open>
  \<^verbatim>\<open>login\<close> and \<^verbatim>\<open>register\<close> (written \<open>register_user\<close>): a thrown error is \<open>Inl\<close> of its
  message, \<^verbatim>\<open>err.detail || "Login failed"\<close> being \<open>detail_or\<close>. After an ok answer both
  run the same four statements, \<open>store_session\<close>; \<^verbatim>\<open>JSON.stringify\<close> is the runtime's and a
  parameter.
\<close>

definition login :: "(User \<Rightarrow> string) \<Rightarrow> AuthResponse \<Rightarrow> AuthProvider \<Rightarrow> string + AuthProvider" where
  "login JSON_stringify res w =
     (case res of
        NotOk d \<Rightarrow> Inl (detail_or ''Login failed'' d)
      | Ok data \<Rightarrow> Inr (store_session JSON_stringify data w))"

definition register_user :: "(User \<Rightarrow> string) \<Rightarrow> AuthResponse \<Rightarrow> AuthProvider \<Rightarrow> string + AuthProvider" where
  "register_user JSON_stringify res w =
     (case res of
        NotOk d \<Rightarrow> Inl (detail_or ''Registration failed'' d)
      | Ok data \<Rightarrow> Inr (store_session JSON_stringify data w))"

definition logout :: "AuthProvider \<Rightarrow> AuthProvider" where
  "logout w =
     w\<lparr>storage := (storage w)(TOKEN_KEY := None, USER_KEY := None),
       token := None,
       user := None\<rparr>"

section \<open>Detection pipeline (backend; described by the specification)\<close>

text \<open>
  The Python backend (validators, transformer filter, orchestration) is not among the
  sources; only its README is. Every definition of this section is modelled from the
  specification's sections 3 and 4 and the README's tables.
\<close>

text \<open>
  Modelled from the spec: the data model of section 3 (the entity types of section 4.1,
  the four risk tiers, Candidate, Finding, DisambiguationVerdict, source metadata), whose
  Python classes are missing. The spec's Finding has no field for the raw value. Field
  names carry a prefix where the API records above use the same name.
\<close>

datatype EntityType =
  Aadhaar | PAN | GSTIN | ABHA | IndianPhone | UPI | CardNumber | Passport | Email | PersonName

datatype Risk = Critical | High | Medium | Low

record Candidate =
  ctype :: EntityType
  raw_span :: string
  raw_value :: string
  start_offset :: nat
  end_offset :: nat
  source_ref :: string
  raw_confidence :: real

record PipelineFinding =
  p_type :: EntityType
  p_value_masked :: string
  p_snippet :: string
  p_confidence :: real
  p_risk :: Risk
  p_annotation :: string
  p_source :: string
  p_source_url :: string
  p_platform :: string

record SourceMetadata =
  source_id :: string
  m_source_url :: string
  m_platform :: string
  visibility :: string

record DisambiguationVerdict =
  is_synthetic :: bool
  probability :: real

subsection \<open>Masking\<close>

text \<open>
  Modelled from the spec: the masking function, which is missing. Section 3 gives the rule
  as keeping a fixed prefix and suffix, "first 2 + last 2 characters"; a value too short to
  have anything between them is masked whole.
\<close>

definition mask_value :: "string \<Rightarrow> string" where
  "mask_value v =
     (if length v \<le> 4 then replicate (length v) (CHR ''*'')
      else take 2 v @ replicate (length v - 4) (CHR ''*'') @ drop (length v - 2) v)"

subsection \<open>Checksum validators\<close>

text \<open>
  Modelled from the spec: \<^verbatim>\<open>validators.py\<close>, which is missing. The Verhoeff scheme's
  tables: the multiplication table of the dihedral group D5 and the eight rows of the
  position permutation. (The inverse table the specification also names serves to
  generate a check digit; validation does not read it.)
\<close>

definition verhoeff_d :: "nat list list" where
  "verhoeff_d =
     [[0, 1, 2, 3, 4, 5, 6, 7, 8, 9],
      [1, 2, 3, 4, 0, 6, 7, 8, 9, 5],
      [2, 3, 4, 0, 1, 7, 8, 9, 5, 6],
      [3, 4, 0, 1, 2, 8, 9, 5, 6, 7],
      [4, 0, 1, 2, 3, 9, 5, 6, 7, 8],
      [5, 9, 8, 7, 6, 0, 4, 3, 2, 1],
      [6, 5, 9, 8, 7, 1, 0, 4, 3, 2],
      [7, 6, 5, 9, 8, 2, 1, 0, 4, 3],
      [8, 7, 6, 5, 9, 3, 2, 1, 0, 4],
      [9, 8, 7, 6, 5, 4, 3, 2, 1, 0]]"

definition verhoeff_p :: "nat list list" where
  "verhoeff_p =
     [[0, 1, 2, 3, 4, 5, 6, 7, 8, 9],
      [1, 5, 7, 6, 2, 8, 3, 0, 9, 4],
      [5, 8, 0, 3, 7, 9, 6, 1, 4, 2],
      [8, 9, 1, 6, 0, 4, 3, 5, 2, 7],
      [9, 4, 5, 3, 1, 2, 6, 8, 7, 0],
      [4, 2, 8, 6, 5, 7, 3, 9, 0, 1],
      [2, 7, 9, 3, 8, 0, 6, 4, 1, 5],
      [7, 0, 4, 6, 9, 1, 3, 2, 5, 8]]"

text \<open>
  Modelled from the spec: the reading of a candidate's raw value as decimal digits
  (\<^verbatim>\<open>validators.py\<close> is missing); a character is a digit when its code is between
  those of 0 and 9.
\<close>

definition is_digit :: "char \<Rightarrow> bool" where
  "is_digit ch \<longleftrightarrow> 48 \<le> (of_char ch :: nat) \<and> (of_char ch :: nat) \<le> 57"

definition digit_value :: "char \<Rightarrow> nat" where
  "digit_value ch = of_char ch - 48"

text \<open>
  Modelled from the spec: the Verhoeff loop of the missing \<^verbatim>\<open>validators.py\<close>, over the digits
  taken right to left: \<open>i\<close> is the position (0 for the rightmost digit), \<open>c\<close> the
  accumulator; each digit goes through the permutation row \<open>i mod 8\<close> and is multiplied
  in by the table. A string is valid when it has 12 digits and the final accumulator is 0.
\<close>

fun verhoeff_loop :: "nat \<Rightarrow> nat \<Rightarrow> nat list \<Rightarrow> nat" where
  "verhoeff_loop i c [] = c"
| "verhoeff_loop i c (x # xs) =
     verhoeff_loop (i + 1) (verhoeff_d ! c ! (verhoeff_p ! (i mod 8) ! x)) xs"

definition verhoeff_accumulator :: "string \<Rightarrow> nat" where
  "verhoeff_accumulator s = verhoeff_loop 0 0 (map digit_value (rev s))"

definition validate_aadhaar :: "string \<Rightarrow> bool" where
  "validate_aadhaar s \<longleftrightarrow>
     (if length s \<noteq> 12 \<or> \<not> list_all is_digit s then False
      else verhoeff_accumulator s = 0)"

text \<open>
  Modelled from the spec: the Luhn check of the missing \<^verbatim>\<open>validators.py\<close>. From the
  rightmost digit, every second digit is doubled, 9 is subtracted from a doubled value
  above 9, and the digits are summed; the number is valid when the sum is a multiple of 10.
\<close>

fun luhn_loop :: "nat \<Rightarrow> nat \<Rightarrow> nat list \<Rightarrow> nat" where
  "luhn_loop i acc [] = acc"
| "luhn_loop i acc (x # xs) =
     luhn_loop (i + 1)
       (acc + (if odd i then (if 2 * x > 9 then 2 * x - 9 else 2 * x) else x)) xs"

definition validate_card :: "string \<Rightarrow> bool" where
  "validate_card s \<longleftrightarrow>
     (if s = [] \<or> \<not> list_all is_digit s then False
      else luhn_loop 0 0 (map digit_value (rev s)) mod 10 = 0)"

text \<open>
  Modelled from the spec: the validator's dispatch on the candidate's type, which is
  missing. The structural checks of the other types (PAN, GSTIN and the rest) rest on
  lookup sets the specification does not list; they are the parameter \<open>structural\<close>.
\<close>

definition validate :: "(EntityType \<Rightarrow> string \<Rightarrow> bool) \<Rightarrow> Candidate \<Rightarrow> bool" where
  "validate structural c =
     (case ctype c of
        Aadhaar \<Rightarrow> validate_aadhaar (raw_value c)
      | CardNumber \<Rightarrow> validate_card (raw_value c)
      | t \<Rightarrow> structural t (raw_value c))"

text \<open>
  Modelled from the spec: the risk level of each type, which the backend assigns; the
  README's table of supported types lists them.
\<close>

fun risk_level :: "EntityType \<Rightarrow> Risk" where
  "risk_level Aadhaar = Critical"
| "risk_level PAN = High"
| "risk_level GSTIN = High"
| "risk_level CardNumber = Critical"
| "risk_level ABHA = High"
| "risk_level Passport = High"
| "risk_level UPI = Medium"
| "risk_level IndianPhone = Medium"
| "risk_level Email = Low"
| "risk_level PersonName = Low"

text \<open>
  Modelled from the spec: the promotion of a validated candidate to a finding, which is
  missing. The confidence is the larger of the recognizer's and the type's floor (the
  floors are the parameter \<open>validator_floor\<close>); the value is masked.
\<close>

definition promote :: "(EntityType \<Rightarrow> real) \<Rightarrow> SourceMetadata \<Rightarrow> Candidate \<Rightarrow> PipelineFinding" where
  "promote validator_floor meta c =
     \<lparr>p_type = ctype c,
      p_value_masked = mask_value (raw_value c),
      p_snippet = raw_span c,
      p_confidence = max (raw_confidence c) (validator_floor (ctype c)),
      p_risk = risk_level (ctype c),
      p_annotation = [],
      p_source = source_ref c,
      p_source_url = m_source_url meta,
      p_platform = m_platform meta\<rparr>"

text \<open>
  Modelled from the spec: the validator stage of the missing orchestrator, a loop over the
  candidates of a source in order: an invalid candidate is dropped, a valid one promoted.
\<close>

fun validator_stage ::
  "(EntityType \<Rightarrow> string \<Rightarrow> bool) \<Rightarrow> (EntityType \<Rightarrow> real) \<Rightarrow> SourceMetadata \<Rightarrow> Candidate list
     \<Rightarrow> PipelineFinding list" where
  "validator_stage structural validator_floor meta [] = []"
| "validator_stage structural validator_floor meta (c # cs) =
     (if validate structural c
      then promote validator_floor meta c # validator_stage structural validator_floor meta cs
      else validator_stage structural validator_floor meta cs)"

subsection \<open>Disambiguation filter\<close>

text \<open>
  Modelled from the spec: the fixed threshold of the missing \<^verbatim>\<open>transformer_filter.py\<close>, the
  0.6 of section 4.3.
\<close>

definition synthetic_threshold :: real where
  "synthetic_threshold = 6 / 10"

text \<open>
  Modelled from the spec: the demotion of a risk by one tier (section 4.3), missing with
  the filter. Low is the lowest of the four tiers and has none below it; it stays Low.
  \<open>tier_rank\<close> numbers the tiers from the lowest.
\<close>

fun demote_risk :: "Risk \<Rightarrow> Risk" where
  "demote_risk Critical = High"
| "demote_risk High = Medium"
| "demote_risk Medium = Low"
| "demote_risk Low = Low"

fun tier_rank :: "Risk \<Rightarrow> nat" where
  "tier_rank Critical = 3"
| "tier_rank High = 2"
| "tier_rank Medium = 1"
| "tier_rank Low = 0"

text \<open>
  Modelled from the spec: the filter of the missing \<^verbatim>\<open>transformer_filter.py\<close> on one
  finding. The classifier is the parameter \<open>classify\<close> (a finding and its snippet give a
  verdict); the text written into the annotation of a demoted finding is the parameter
  \<open>annotate\<close>. The stage applies it to every finding when the scan request enables it
  (\<^verbatim>\<open>use_nlp\<close>) and is skipped otherwise.
\<close>

definition disambiguate ::
  "(PipelineFinding \<Rightarrow> string \<Rightarrow> DisambiguationVerdict) \<Rightarrow> (DisambiguationVerdict \<Rightarrow> string)
     \<Rightarrow> PipelineFinding \<Rightarrow> PipelineFinding" where
  "disambiguate classify annotate f =
     (let v = classify f (p_snippet f) in
      if is_synthetic v \<and> probability v > synthetic_threshold then
        f\<lparr>p_risk := demote_risk (p_risk f),
          p_confidence := p_confidence f * (1 - probability v),
          p_annotation := annotate v\<rparr>
      else f)"

definition disambiguation_stage ::
  "bool \<Rightarrow> (PipelineFinding \<Rightarrow> string \<Rightarrow> DisambiguationVerdict) \<Rightarrow> (DisambiguationVerdict \<Rightarrow> string)
     \<Rightarrow> PipelineFinding list \<Rightarrow> PipelineFinding list" where
  "disambiguation_stage use_nlp classify annotate fs =
     (if use_nlp then map (disambiguate classify annotate) fs else fs)"

text \<open>
  Modelled from the spec: one source through the stages of the missing orchestrator
  (section 4.5): candidates, validation, optional disambiguation; the result is what the
  scorer receives and what the response lists.
\<close>

definition scan_source ::
  "(EntityType \<Rightarrow> string \<Rightarrow> bool) \<Rightarrow> (EntityType \<Rightarrow> real) \<Rightarrow> SourceMetadata \<Rightarrow> bool
     \<Rightarrow> (PipelineFinding \<Rightarrow> string \<Rightarrow> DisambiguationVerdict) \<Rightarrow> (DisambiguationVerdict \<Rightarrow> string)
     \<Rightarrow> Candidate list \<Rightarrow> PipelineFinding list" where
  "scan_source structural validator_floor meta use_nlp classify annotate cs =
     disambiguation_stage use_nlp classify annotate
       (validator_stage structural validator_floor meta cs)"

subsection \<open>Scenarios of section 8\<close>

text \<open>
  A twelve-digit string whose Verhoeff accumulator is not 0, recognised as an Aadhaar
  candidate in a public file.
\<close>

definition example_metadata :: SourceMetadata where
  "example_metadata =
     \<lparr>source_id = ''octocat/hello:notes.txt'',
      m_source_url = ''https://github.com/octocat/hello/blob/main/notes.txt'',
      m_platform = ''github'', visibility = ''public''\<rparr>"

definition invalid_aadhaar_candidate :: Candidate where
  "invalid_aadhaar_candidate =
     \<lparr>ctype = Aadhaar, raw_span = ''uid 123456789012'', raw_value = ''123456789012'',
      start_offset = 4, end_offset = 16, source_ref = ''notes.txt'',
      raw_confidence = 85 / 100\<rparr>"

text \<open>The valid twelve-digit vector, recognised as an Aadhaar candidate in the same file.\<close>

definition valid_aadhaar_candidate :: Candidate where
  "valid_aadhaar_candidate =
     \<lparr>ctype = Aadhaar, raw_span = ''uid 234123412346'', raw_value = ''234123412346'',
      start_offset = 4, end_offset = 16, source_ref = ''notes.txt'',
      raw_confidence = 85 / 100\<rparr>"

text \<open>
  A finding of the lowest tier in a context that says it is made up: an e-mail address
  (Low in the README's table) in the snippet "dummy contact: test.user@example.com".
\<close>

definition dummy_email_finding :: PipelineFinding where
  "dummy_email_finding =
     \<lparr>p_type = Email, p_value_masked = ''te*****************om'',
      p_snippet = ''dummy contact: test.user@example.com'', p_confidence = 85 / 100,
      p_risk = Low, p_annotation = [], p_source = ''notes.txt'',
      p_source_url = ''https://github.com/octocat/hello/blob/main/notes.txt'',
      p_platform = ''github''\<rparr>"

text \<open>The finding of the snippet "test card: 4111111111111111", as the validator emits it.\<close>

definition test_card_finding :: PipelineFinding where
  "test_card_finding =
     \<lparr>p_type = CardNumber, p_value_masked = ''41************11'',
      p_snippet = ''test card: 4111111111111111'', p_confidence = 9 / 10, p_risk = Critical,
      p_annotation = [], p_source = ''notes.txt'',
      p_source_url = ''https://github.com/octocat/hello/blob/main/notes.txt'',
      p_platform = ''github''\<rparr>"

section \<open>Properties of the API URL setting\<close>

lemma without_Cons:
  "without_trailing_slashes (c # cs) =
     (if c = CHR ''/'' \<and> list_all (\<lambda>d. d = CHR ''/'') cs then []
      else c # without_trailing_slashes cs)"
proof (cases "list_all (\<lambda>d. d = CHR ''/'') cs")
  case True
  then have "dropWhile (\<lambda>c. c = CHR ''/'') (rev cs) = []"
    by (simp add: list_all_iff)
  then show ?thesis
    using True by (simp add: without_trailing_slashes_def dropWhile_append)
next
  case False
  then have "dropWhile (\<lambda>c. c = CHR ''/'') (rev cs) \<noteq> []"
    by (auto simp: list_all_iff)
  then show ?thesis
    using False by (simp add: without_trailing_slashes_def dropWhile_append)
qed

lemma replace_is_without:
  "replace_trailing_slashes s = without_trailing_slashes s"
proof (induction s)
  case Nil
  show ?case by (simp add: without_trailing_slashes_def)
next
  case (Cons c cs)
  then show ?case by (simp only: without_Cons replace_trailing_slashes.simps)
qed

lemma without_idem:
  "without_trailing_slashes (without_trailing_slashes s) = without_trailing_slashes s"
proof -
  have "dropWhile (\<lambda>c. c = CHR ''/'') (dropWhile (\<lambda>c. c = CHR ''/'') (rev s))
          = dropWhile (\<lambda>c. c = CHR ''/'') (rev s)"
    by (rule dropWhile_idem)
  then show ?thesis by (simp add: without_trailing_slashes_def)
qed

lemma getApiUrl_setApiUrl:
  "getApiUrl d (setApiUrl url ls) =
     (if without_trailing_slashes url = [] then d else without_trailing_slashes url)"
  by (simp add: getApiUrl_def setApiUrl_def replace_is_without)

text \<open>
  After \<^verbatim>\<open>setApiUrl("/")\<close> the stored value is the empty string, which \<^verbatim>\<open>getApiUrl\<close> treats
  like a missing key: it returns the default, not the stripped URL, and storing that
  result again changes the stored value.
\<close>

theorem getApiUrl_after_setApiUrl_counterexample:
  "getApiUrl ''http://localhost:8000'' (setApiUrl ''/'' Map.empty)
     \<noteq> without_trailing_slashes ''/''
   \<and> setApiUrl (getApiUrl ''http://localhost:8000'' (setApiUrl ''/'' Map.empty))
        (setApiUrl ''/'' Map.empty) ''aegis_api_url''
     \<noteq> (setApiUrl ''/'' Map.empty) ''aegis_api_url''"
  by (simp add: getApiUrl_def setApiUrl_def without_trailing_slashes_def)

text \<open>
  C9 (amended). For every \<open>url\<close> that is not empty once its trailing slashes are removed,
  \<^verbatim>\<open>getApiUrl()\<close> after \<^verbatim>\<open>setApiUrl(url)\<close> returns \<open>url\<close> without its trailing slashes, and
  \<^verbatim>\<open>setApiUrl(getApiUrl())\<close> then leaves the stored URL unchanged. When \<open>url\<close> is empty or
  consists of slashes only, the empty string is stored and \<^verbatim>\<open>getApiUrl()\<close> returns
  \<^verbatim>\<open>DEFAULT_API_URL\<close>. The normalisation itself is idempotent for every \<open>url\<close>.
\<close>

theorem setApiUrl_then_getApiUrl:
  "(without_trailing_slashes url \<noteq> [] \<longrightarrow>
      getApiUrl d (setApiUrl url ls) = without_trailing_slashes url
      \<and> setApiUrl (getApiUrl d (setApiUrl url ls)) (setApiUrl url ls) = setApiUrl url ls)
   \<and> (without_trailing_slashes url = [] \<longrightarrow>
      (setApiUrl url ls) ''aegis_api_url'' = Some [] \<and> getApiUrl d (setApiUrl url ls) = d)
   \<and> replace_trailing_slashes (replace_trailing_slashes url) = replace_trailing_slashes url"
proof (intro conjI impI)
  assume ne: "without_trailing_slashes url \<noteq> []"
  then show g: "getApiUrl d (setApiUrl url ls) = without_trailing_slashes url"
    by (simp add: getApiUrl_setApiUrl)
  show "setApiUrl (getApiUrl d (setApiUrl url ls)) (setApiUrl url ls) = setApiUrl url ls"
    unfolding g by (simp add: setApiUrl_def replace_is_without without_idem)
next
  assume e: "without_trailing_slashes url = []"
  then show "(setApiUrl url ls) ''aegis_api_url'' = Some []"
    by (simp add: setApiUrl_def replace_is_without)
  from e show "getApiUrl d (setApiUrl url ls) = d"
    by (simp add: getApiUrl_setApiUrl)
next
  show "replace_trailing_slashes (replace_trailing_slashes url) = replace_trailing_slashes url"
    by (simp add: replace_is_without without_idem)
qed

theorem setApiUrl_then_getApiUrl_witness:
  "without_trailing_slashes ''http://localhost:8000//'' \<noteq> []
   \<and> getApiUrl ''http://127.0.0.1:8000'' (setApiUrl ''http://localhost:8000//'' Map.empty)
       = ''http://localhost:8000''
   \<and> setApiUrl (getApiUrl ''http://127.0.0.1:8000'' (setApiUrl ''http://localhost:8000//'' Map.empty))
        (setApiUrl ''http://localhost:8000//'' Map.empty)
       = setApiUrl ''http://localhost:8000//'' Map.empty
   \<and> without_trailing_slashes ''//'' = []
   \<and> getApiUrl ''http://127.0.0.1:8000'' (setApiUrl ''//'' Map.empty) = ''http://127.0.0.1:8000''"
proof -
  have a: "without_trailing_slashes ''http://localhost:8000//'' = ''http://localhost:8000''"
    by (simp add: without_trailing_slashes_def)
  have b: "without_trailing_slashes ''//'' = []"
    by (simp add: without_trailing_slashes_def)
  have ne: "without_trailing_slashes ''http://localhost:8000//'' \<noteq> []"
    by (simp add: a)
  have kept:
    "getApiUrl ''http://127.0.0.1:8000'' (setApiUrl ''http://localhost:8000//'' Map.empty)
       = without_trailing_slashes ''http://localhost:8000//''
     \<and> setApiUrl (getApiUrl ''http://127.0.0.1:8000'' (setApiUrl ''http://localhost:8000//'' Map.empty))
          (setApiUrl ''http://localhost:8000//'' Map.empty)
       = setApiUrl ''http://localhost:8000//'' Map.empty"
    using setApiUrl_then_getApiUrl
      [of "''http://localhost:8000//''" "''http://127.0.0.1:8000''" Map.empty] ne
    by blast
  have fallback:
    "getApiUrl ''http://127.0.0.1:8000'' (setApiUrl ''//'' Map.empty) = ''http://127.0.0.1:8000''"
    using setApiUrl_then_getApiUrl [of "''//''" "''http://127.0.0.1:8000''" Map.empty] b
    by blast
  from kept have first:
    "getApiUrl ''http://127.0.0.1:8000'' (setApiUrl ''http://localhost:8000//'' Map.empty)
       = ''http://localhost:8000''"
    by (simp only: a)
  show ?thesis
    using ne first kept b fallback by blast
qed

section \<open>Properties of the registration form\<close>

text \<open>
  C10. In \<^verbatim>\<open>handleSubmit\<close>, when one of full name, email, password and confirm-password is
  empty, or the password has fewer than 6 characters, or the password differs from its
  confirmation, \<^verbatim>\<open>register\<close> is not called and an error message is set: the form's state
  changes in its \<^verbatim>\<open>error\<close> alone, which becomes "Please fill in all fields", "Password must
  be at least 6 characters" or "Passwords do not match", by the first check that fails.
  \<^verbatim>\<open>register\<close> is called exactly when all these preconditions hold, once, with the form's
  email, password and full name.
\<close>

theorem handleSubmit_guards:
  "(fullName st = [] \<or> email st = [] \<or> password st = [] \<or> confirmPassword st = []
      \<or> length (password st) < 6 \<or> password st \<noteq> confirmPassword st \<longrightarrow>
      register_calls (handleSubmit register st) = []
      \<and> (\<exists>message. message \<noteq> [] \<and> error (state_after (handleSubmit register st)) = Some message)
      \<and> navigated (handleSubmit register st) = None)
   \<and> (register_calls (handleSubmit register st) \<noteq> [] \<longleftrightarrow>
        fullName st \<noteq> [] \<and> email st \<noteq> [] \<and> password st \<noteq> [] \<and> confirmPassword st \<noteq> []
        \<and> 6 \<le> length (password st) \<and> password st = confirmPassword st)
   \<and> (register_calls (handleSubmit register st) \<noteq> [] \<longrightarrow>
        register_calls (handleSubmit register st) = [(email st, password st, fullName st)])
   \<and> (fullName st = [] \<or> email st = [] \<or> password st = [] \<or> confirmPassword st = [] \<longrightarrow>
        handleSubmit register st =
          \<lparr>state_after = st\<lparr>error := Some ''Please fill in all fields''\<rparr>,
           register_calls = [], navigated = None\<rparr>)
   \<and> (fullName st \<noteq> [] \<and> email st \<noteq> [] \<and> password st \<noteq> [] \<and> confirmPassword st \<noteq> []
        \<and> length (password st) < 6 \<longrightarrow>
        handleSubmit register st =
          \<lparr>state_after = st\<lparr>error := Some ''Password must be at least 6 characters''\<rparr>,
           register_calls = [], navigated = None\<rparr>)
   \<and> (fullName st \<noteq> [] \<and> email st \<noteq> [] \<and> password st \<noteq> [] \<and> confirmPassword st \<noteq> []
        \<and> 6 \<le> length (password st) \<and> password st \<noteq> confirmPassword st \<longrightarrow>
        handleSubmit register st =
          \<lparr>state_after = st\<lparr>error := Some ''Passwords do not match''\<rparr>,
           register_calls = [], navigated = None\<rparr>)"
proof (intro conjI)
  show "fullName st = [] \<or> email st = [] \<or> password st = [] \<or> confirmPassword st = []
      \<or> length (password st) < 6 \<or> password st \<noteq> confirmPassword st \<longrightarrow>
      register_calls (handleSubmit register st) = []
      \<and> (\<exists>message. message \<noteq> [] \<and> error (state_after (handleSubmit register st)) = Some message)
      \<and> navigated (handleSubmit register st) = None"
    by (auto simp: handleSubmit_def)
  show "register_calls (handleSubmit register st) \<noteq> [] \<longleftrightarrow>
        fullName st \<noteq> [] \<and> email st \<noteq> [] \<and> password st \<noteq> [] \<and> confirmPassword st \<noteq> []
        \<and> 6 \<le> length (password st) \<and> password st = confirmPassword st"
    by (auto simp: handleSubmit_def split: sum.splits)
  show "register_calls (handleSubmit register st) \<noteq> [] \<longrightarrow>
        register_calls (handleSubmit register st) = [(email st, password st, fullName st)]"
    by (auto simp: handleSubmit_def split: sum.splits)
  show "fullName st = [] \<or> email st = [] \<or> password st = [] \<or> confirmPassword st = [] \<longrightarrow>
        handleSubmit register st =
          \<lparr>state_after = st\<lparr>error := Some ''Please fill in all fields''\<rparr>,
           register_calls = [], navigated = None\<rparr>"
    by (auto simp: handleSubmit_def)
  show "fullName st \<noteq> [] \<and> email st \<noteq> [] \<and> password st \<noteq> [] \<and> confirmPassword st \<noteq> []
        \<and> length (password st) < 6 \<longrightarrow>
        handleSubmit register st =
          \<lparr>state_after = st\<lparr>error := Some ''Password must be at least 6 characters''\<rparr>,
           register_calls = [], navigated = None\<rparr>"
    by (simp add: handleSubmit_def)
  show "fullName st \<noteq> [] \<and> email st \<noteq> [] \<and> password st \<noteq> [] \<and> confirmPassword st \<noteq> []
        \<and> 6 \<le> length (password st) \<and> password st \<noteq> confirmPassword st \<longrightarrow>
        handleSubmit register st =
          \<lparr>state_after = st\<lparr>error := Some ''Passwords do not match''\<rparr>,
           register_calls = [], navigated = None\<rparr>"
    by (simp add: handleSubmit_def)
qed

theorem handleSubmit_guards_witness:
  "length ''abc12'' < 6
   \<and> register_calls (handleSubmit (\<lambda>e p n. Inr ())
        \<lparr>fullName = ''Asha Rao'', email = ''asha@example.com'', password = ''abc12'',
         confirmPassword = ''abc12'', showPassword = False, loading = False, error = None\<rparr>) = []
   \<and> error (state_after (handleSubmit (\<lambda>e p n. Inr ())
        \<lparr>fullName = ''Asha Rao'', email = ''asha@example.com'', password = ''abc12'',
         confirmPassword = ''abc12'', showPassword = False, loading = False, error = None\<rparr>))
        = Some ''Password must be at least 6 characters''
   \<and> error (state_after (handleSubmit (\<lambda>e p n. Inr ())
        \<lparr>fullName = ''Asha Rao'', email = [], password = ''abc123'',
         confirmPassword = ''abc123'', showPassword = False, loading = False, error = None\<rparr>))
        = Some ''Please fill in all fields''
   \<and> error (state_after (handleSubmit (\<lambda>e p n. Inr ())
        \<lparr>fullName = ''Asha Rao'', email = ''asha@example.com'', password = ''abc123'',
         confirmPassword = ''abc124'', showPassword = False, loading = False, error = None\<rparr>))
        = Some ''Passwords do not match''
   \<and> register_calls (handleSubmit (\<lambda>e p n. Inr ())
        \<lparr>fullName = ''Asha Rao'', email = ''asha@example.com'', password = ''abc123'',
         confirmPassword = ''abc123'', showPassword = False, loading = False, error = None\<rparr>)
       = [(''asha@example.com'', ''abc123'', ''Asha Rao'')]"
proof -
  let ?reg = "\<lambda>(e::string) (p::string) (n::string). (Inr () :: string + unit)"
  let ?short = "\<lparr>fullName = ''Asha Rao'', email = ''asha@example.com'', password = ''abc12'',
         confirmPassword = ''abc12'', showPassword = False, loading = False, error = None\<rparr>"
  let ?empty = "\<lparr>fullName = ''Asha Rao'', email = [], password = ''abc123'',
         confirmPassword = ''abc123'', showPassword = False, loading = False, error = None\<rparr>"
  let ?differ = "\<lparr>fullName = ''Asha Rao'', email = ''asha@example.com'', password = ''abc123'',
         confirmPassword = ''abc124'', showPassword = False, loading = False, error = None\<rparr>"
  let ?good = "\<lparr>fullName = ''Asha Rao'', email = ''asha@example.com'', password = ''abc123'',
         confirmPassword = ''abc123'', showPassword = False, loading = False, error = None\<rparr>"
  have short: "fullName ?short \<noteq> [] \<and> email ?short \<noteq> [] \<and> password ?short \<noteq> []
     \<and> confirmPassword ?short \<noteq> [] \<and> length (password ?short) < 6"
    by simp
  have refused: "register_calls (handleSubmit ?reg ?short) = []"
    using handleSubmit_guards [of ?short ?reg] short by blast
  have "handleSubmit ?reg ?short =
      \<lparr>state_after = ?short\<lparr>error := Some ''Password must be at least 6 characters''\<rparr>,
       register_calls = [], navigated = None\<rparr>"
    using handleSubmit_guards [of ?short ?reg] short by blast
  then have m1: "error (state_after (handleSubmit ?reg ?short))
      = Some ''Password must be at least 6 characters''"
    by simp
  have empty: "fullName ?empty = [] \<or> email ?empty = [] \<or> password ?empty = []
     \<or> confirmPassword ?empty = []"
    by simp
  have "handleSubmit ?reg ?empty =
      \<lparr>state_after = ?empty\<lparr>error := Some ''Please fill in all fields''\<rparr>,
       register_calls = [], navigated = None\<rparr>"
    using handleSubmit_guards [of ?empty ?reg] empty by blast
  then have m2: "error (state_after (handleSubmit ?reg ?empty)) = Some ''Please fill in all fields''"
    by simp
  have differ: "fullName ?differ \<noteq> [] \<and> email ?differ \<noteq> [] \<and> password ?differ \<noteq> []
     \<and> confirmPassword ?differ \<noteq> [] \<and> 6 \<le> length (password ?differ)
     \<and> password ?differ \<noteq> confirmPassword ?differ"
    by simp
  have "handleSubmit ?reg ?differ =
      \<lparr>state_after = ?differ\<lparr>error := Some ''Passwords do not match''\<rparr>,
       register_calls = [], navigated = None\<rparr>"
    using handleSubmit_guards [of ?differ ?reg] differ by blast
  then have m3: "error (state_after (handleSubmit ?reg ?differ)) = Some ''Passwords do not match''"
    by simp
  have pre: "fullName ?good \<noteq> [] \<and> email ?good \<noteq> [] \<and> password ?good \<noteq> []
     \<and> confirmPassword ?good \<noteq> [] \<and> 6 \<le> length (password ?good)
     \<and> password ?good = confirmPassword ?good"
    by simp
  have called: "register_calls (handleSubmit ?reg ?good)
      = [(email ?good, password ?good, fullName ?good)]"
    using handleSubmit_guards [of ?good ?reg] pre by blast
  show ?thesis
    using refused m1 m2 m3 called by simp
qed

section \<open>Properties of the history save\<close>

text \<open>
  On the GitHub tab (\<^verbatim>\<open>scanType="github"\<close>, the repository as target) the history-save
  request is not made of the five counters alone: it also names the scan by \<^verbatim>\<open>scan_type\<close>
  and \<^verbatim>\<open>target\<close>.
\<close>

theorem history_item_counterexample:
  "object_keys (history_item example_response (Some ''github'') (Some ''octocat/hello''))
     \<noteq> [''findings_count'', ''max_ess'', ''ess_label'', ''sources_scanned'', ''scan_duration'']
   \<and> ''target'' \<in> set (object_keys
        (history_item example_response (Some ''github'') (Some ''octocat/hello'')))
   \<and> ''octocat/hello'' \<in> set (json_strings
        (history_item example_response (Some ''github'') (Some ''octocat/hello'')))"
  by (simp add: history_item_def optional_field_def)

text \<open>
  C7 (amended). The history-save request consists of the aggregate counters
  \<^verbatim>\<open>findings_count\<close>, \<^verbatim>\<open>max_ess\<close>, \<^verbatim>\<open>ess_label\<close>, \<^verbatim>\<open>sources_scanned\<close> and \<^verbatim>\<open>scan_duration\<close>,
  preceded by the scan's \<^verbatim>\<open>scan_type\<close> and \<^verbatim>\<open>target\<close> on the tabs that hand them to
  \<^verbatim>\<open>ScanResults\<close> (GitHub, Pastebin, social); on the combined tab, which hands over neither,
  it is the five counters alone. It has nothing else. Its only strings are the scan type
  and the target, where given, and the summary's label; the findings enter it through
  their number alone, so no finding's raw value, masked value or snippet is part of it.
\<close>

theorem history_item_contents:
  "object_keys (history_item r (Some st) (Some tg))
     = [''scan_type'', ''target'', ''findings_count'', ''max_ess'', ''ess_label'',
        ''sources_scanned'', ''scan_duration'']
   \<and> object_keys (history_item r None None)
     = [''findings_count'', ''max_ess'', ''ess_label'', ''sources_scanned'', ''scan_duration'']
   \<and> object_keys (history_item r scanType target)
     = map fst (optional_field ''scan_type'' scanType) @ map fst (optional_field ''target'' target)
       @ [''findings_count'', ''max_ess'', ''ess_label'', ''sources_scanned'', ''scan_duration'']
   \<and> json_strings (history_item r scanType target)
     = (case scanType of None \<Rightarrow> [] | Some x \<Rightarrow> [x]) @ (case target of None \<Rightarrow> [] | Some x \<Rightarrow> [x])
       @ [case ess_summary r of None \<Rightarrow> [] | Some s \<Rightarrow> label s]
   \<and> (length fs = length (findings r) \<longrightarrow>
        history_item (r\<lparr>findings := fs\<rparr>) scanType target = history_item r scanType target)"
  by (simp add: history_item_def optional_field_def split: option.splits)

theorem history_item_contents_witness:
  "length [example_finding\<lparr>fvalue := ''999911112222'', value_masked := ''99********22'',
                            snippet := ''aadhaar 999911112222''\<rparr>]
     = length (findings example_response)
   \<and> history_item (example_response\<lparr>findings :=
          [example_finding\<lparr>fvalue := ''999911112222'', value_masked := ''99********22'',
                            snippet := ''aadhaar 999911112222''\<rparr>]\<rparr>)
        (Some ''github'') (Some ''octocat/hello'')
     = history_item example_response (Some ''github'') (Some ''octocat/hello'')
   \<and> history_item (example_response\<lparr>findings :=
          [example_finding\<lparr>fvalue := ''999911112222'', value_masked := ''99********22'',
                            snippet := ''aadhaar 999911112222''\<rparr>]\<rparr>) None None
     = history_item example_response None None"
proof -
  have len: "length [example_finding\<lparr>fvalue := ''999911112222'', value_masked := ''99********22'',
                            snippet := ''aadhaar 999911112222''\<rparr>]
     = length (findings example_response)"
    by (simp add: example_response_def)
  show ?thesis
    using history_item_contents [where r = example_response and st = "''github''"
        and tg = "''octocat/hello''" and scanType = "Some ''github''"
        and target = "Some ''octocat/hello''"
        and fs = "[example_finding\<lparr>fvalue := ''999911112222'', value_masked := ''99********22'',
                            snippet := ''aadhaar 999911112222''\<rparr>]"]
      history_item_contents [where r = example_response and st = "''github''"
        and tg = "''octocat/hello''" and scanType = None and target = None
        and fs = "[example_finding\<lparr>fvalue := ''999911112222'', value_masked := ''99********22'',
                            snippet := ''aadhaar 999911112222''\<rparr>]"]
      len
    by blast
qed

section \<open>Properties of the combined scan\<close>

text \<open>
  C4. The response merged by the combined GitHub and Pastebin scan has a null
  \<^verbatim>\<open>ess_summary\<close> exactly when its findings list is empty, provided the two responses it
  merges do: its summary is null exactly when both summaries are, and its findings are
  empty exactly when both lists are.
\<close>

theorem combined_summary_null_iff_empty:
  "(ess_summary (combined ghRes pbRes) = None
      \<longleftrightarrow> ess_summary ghRes = None \<and> ess_summary pbRes = None)
   \<and> (findings (combined ghRes pbRes) = [] \<longleftrightarrow> findings ghRes = [] \<and> findings pbRes = [])
   \<and> (summary_null_iff_empty ghRes \<and> summary_null_iff_empty pbRes
        \<longrightarrow> summary_null_iff_empty (combined ghRes pbRes))"
  by (auto simp: summary_null_iff_empty_def combined_def truthy_def)

theorem combined_summary_null_iff_empty_witness:
  "summary_null_iff_empty example_response \<and> summary_null_iff_empty clean_response
   \<and> summary_null_iff_empty (combined example_response clean_response)
   \<and> summary_null_iff_empty (combined clean_response clean_response)
   \<and> ess_summary (combined clean_response clean_response) = None
   \<and> ess_summary (combined example_response clean_response) \<noteq> None"
proof -
  have a: "summary_null_iff_empty example_response"
    by (simp add: summary_null_iff_empty_def example_response_def)
  have b: "summary_null_iff_empty clean_response"
    by (simp add: summary_null_iff_empty_def clean_response_def)
  have c: "ess_summary clean_response = None"
    by (simp add: clean_response_def)
  have d: "ess_summary example_response \<noteq> None"
    by (simp add: example_response_def)
  have mixed: "summary_null_iff_empty (combined example_response clean_response)"
    using combined_summary_null_iff_empty [of example_response clean_response] a b by blast
  have clean: "summary_null_iff_empty (combined clean_response clean_response)"
    using combined_summary_null_iff_empty [of clean_response clean_response] b by blast
  have none: "ess_summary (combined clean_response clean_response) = None"
    using combined_summary_null_iff_empty [of clean_response clean_response] c by blast
  have some: "ess_summary (combined example_response clean_response) \<noteq> None"
    using combined_summary_null_iff_empty [of example_response clean_response] d by blast
  show ?thesis
    using a b mixed clean none some by blast
qed

text \<open>
  C5 (the merged summary at failing inputs). The GitHub scan has one source with a
  finding, scored 8, and the Pastebin scan found nothing, so its summary is null. The mean
  over the sources with a finding is 8; the merged \<^verbatim>\<open>avg_ess\<close> is 4, below the only source's
  score, while the merged \<^verbatim>\<open>max_ess\<close> is 8. And when the GitHub scan has three sources scored
  6 and the Pastebin scan one source scored 2, the mean over the four sources is 5; the
  merged \<^verbatim>\<open>avg_ess\<close> is 4.
\<close>

theorem combined_avg_ess_not_mean:
  "map_option avg_ess (ess_summary (combined example_response clean_response)) = Some 4
   \<and> mean_score [8] = 8
   \<and> map_option max_ess (ess_summary (combined example_response clean_response)) = Some 8
   \<and> map_option avg_ess (ess_summary (combined
        (example_response\<lparr>ess_summary := Some \<lparr>max_ess = 6, avg_ess = 6, label = ''MEDIUM'',
            color = ''#eab308'', total_sources = 3, all_types = [''AADHAAR'']\<rparr>\<rparr>)
        (example_response\<lparr>ess_summary := Some \<lparr>max_ess = 2, avg_ess = 2, label = ''INFO'',
            color = ''#22c55e'', total_sources = 1, all_types = [''AADHAAR'']\<rparr>\<rparr>))) = Some 4
   \<and> mean_score [6, 6, 6, 2] = 5"
  by (simp add: combined_def truthy_def example_response_def clean_response_def num_or_zero_def
      mean_score_def)

section \<open>Properties of the authentication context\<close>

text \<open>
  What holds of the actions: \<^verbatim>\<open>isAuthenticated\<close> needs a non-empty token and a user; a
  successful login or registration sets token and user and stores both items; logout
  clears all four; the restore sets both when the stored user text parses, and changes
  neither when an item is missing or empty.
\<close>

lemma keys_differ: "TOKEN_KEY \<noteq> USER_KEY"
  by (simp add: TOKEN_KEY_def USER_KEY_def)

lemma isAuthenticated_iff:
  "isAuthenticated w \<longleftrightarrow> (\<exists>t u. token w = Some t \<and> t \<noteq> [] \<and> user w = Some u)"
  by (auto simp: isAuthenticated_def)

lemma store_session_sets_both:
  "token (store_session JSON_stringify data w) = Some (access_token data)
   \<and> user (store_session JSON_stringify data w)
       = Some \<lparr>u_email = user_email data, u_full_name = user_name data\<rparr>
   \<and> storage (store_session JSON_stringify data w) TOKEN_KEY = Some (access_token data)
   \<and> storage (store_session JSON_stringify data w) USER_KEY
       = Some (JSON_stringify \<lparr>u_email = user_email data, u_full_name = user_name data\<rparr>)"
  using keys_differ by (simp add: store_session_def Let_def)

lemma login_register_outcome:
  "login JSON_stringify (Ok data) w = Inr (store_session JSON_stringify data w)
   \<and> register_user JSON_stringify (Ok data) w = Inr (store_session JSON_stringify data w)
   \<and> login JSON_stringify (NotOk d) w = Inl (detail_or ''Login failed'' d)
   \<and> register_user JSON_stringify (NotOk d) w = Inl (detail_or ''Registration failed'' d)"
  by (simp add: login_def register_user_def)

lemma logout_clears_both:
  "token (logout w) = None \<and> user (logout w) = None
   \<and> storage (logout w) TOKEN_KEY = None \<and> storage (logout w) USER_KEY = None
   \<and> \<not> isAuthenticated (logout w)"
  by (simp add: logout_def isAuthenticated_def)

lemma restore_parsed:
  assumes "storage w TOKEN_KEY = Some st" "st \<noteq> []" "storage w USER_KEY = Some su" "su \<noteq> []"
    and "JSON_parse su = Parsed u"
  shows "token (restore JSON_parse w) = Some st \<and> user (restore JSON_parse w) = u"
  using assms by (simp add: restore_def)

lemma restore_throws:
  assumes "storage w TOKEN_KEY = Some st" "st \<noteq> []" "storage w USER_KEY = Some su" "su \<noteq> []"
    and "JSON_parse su = Throws"
  shows "token (restore JSON_parse w) = Some st \<and> user (restore JSON_parse w) = user w
         \<and> storage (restore JSON_parse w) TOKEN_KEY = None
         \<and> storage (restore JSON_parse w) USER_KEY = None"
  using assms by (simp add: restore_def)

lemma restore_nothing_stored:
  assumes "storage w TOKEN_KEY = None \<or> storage w TOKEN_KEY = Some []
           \<or> storage w USER_KEY = None \<or> storage w USER_KEY = Some []"
  shows "token (restore JSON_parse w) = token w \<and> user (restore JSON_parse w) = user w"
  using assms by (auto simp: restore_def split: option.splits)

text \<open>
  C8 (the restore at a failing input). The stored user text is not JSON, so
  \<^verbatim>\<open>JSON.parse\<close> throws. \<^verbatim>\<open>setToken\<close> has run by then: after the mount the token is the
  stored one while the user is null, although both stored items are removed. The restore
  has neither set both nor left both null.
\<close>

theorem restore_parse_error_keeps_token:
  "token (restore (\<lambda>text. Throws)
      (initial_provider [TOKEN_KEY \<mapsto> ''eyJhbGciOiJIUzI1NiJ9'', USER_KEY \<mapsto> ''{bad'']))
     = Some ''eyJhbGciOiJIUzI1NiJ9''
   \<and> user (restore (\<lambda>text. Throws)
      (initial_provider [TOKEN_KEY \<mapsto> ''eyJhbGciOiJIUzI1NiJ9'', USER_KEY \<mapsto> ''{bad''])) = None
   \<and> storage (restore (\<lambda>text. Throws)
      (initial_provider [TOKEN_KEY \<mapsto> ''eyJhbGciOiJIUzI1NiJ9'', USER_KEY \<mapsto> ''{bad'']))
      TOKEN_KEY = None
   \<and> storage (restore (\<lambda>text. Throws)
      (initial_provider [TOKEN_KEY \<mapsto> ''eyJhbGciOiJIUzI1NiJ9'', USER_KEY \<mapsto> ''{bad'']))
      USER_KEY = None
   \<and> \<not> isAuthenticated (restore (\<lambda>text. Throws)
      (initial_provider [TOKEN_KEY \<mapsto> ''eyJhbGciOiJIUzI1NiJ9'', USER_KEY \<mapsto> ''{bad'']))"
  by (simp add: restore_def initial_provider_def TOKEN_KEY_def USER_KEY_def isAuthenticated_def)

section \<open>Properties of the Verhoeff validator\<close>

text \<open>
  Each row and each column of the multiplication table, and each row of the permutation
  table, is a permutation of the digits: the table operations can be cancelled.
\<close>

lemma verhoeff_d_rows:
  "list_all (\<lambda>a. distinct (map (\<lambda>x. verhoeff_d ! a ! x) [0..<10])
                \<and> list_all (\<lambda>x. verhoeff_d ! a ! x < 10) [0..<10]) [0..<10]"
  by code_simp

lemma verhoeff_d_columns:
  "list_all (\<lambda>x. distinct (map (\<lambda>a. verhoeff_d ! a ! x) [0..<10])) [0..<10]"
  by code_simp

lemma verhoeff_p_rows:
  "list_all (\<lambda>r. distinct (map (\<lambda>x. verhoeff_p ! r ! x) [0..<10])
                \<and> list_all (\<lambda>x. verhoeff_p ! r ! x < 10) [0..<10]) [0..<8]"
  by code_simp

lemma distinct_map_upt_inj:
  assumes "distinct (map f [0..<n])" "x < n" "y < n" "f x = f y"
  shows "x = y"
proof -
  have "inj_on f (set [0..<n])"
    using assms(1) by (simp add: distinct_map)
  then show ?thesis
    using assms(2-4) by (auto dest: inj_onD)
qed

lemma d_closed: "a < 10 \<Longrightarrow> x < 10 \<Longrightarrow> verhoeff_d ! a ! x < 10"
  using verhoeff_d_rows by (simp add: list_all_iff)

lemma d_left_cancel:
  "a < 10 \<Longrightarrow> x < 10 \<Longrightarrow> y < 10 \<Longrightarrow> verhoeff_d ! a ! x = verhoeff_d ! a ! y \<Longrightarrow> x = y"
  using verhoeff_d_rows distinct_map_upt_inj [of "\<lambda>x. verhoeff_d ! a ! x" 10 x y]
  by (simp add: list_all_iff)

lemma d_right_cancel:
  "a < 10 \<Longrightarrow> b < 10 \<Longrightarrow> x < 10 \<Longrightarrow> verhoeff_d ! a ! x = verhoeff_d ! b ! x \<Longrightarrow> a = b"
  using verhoeff_d_columns distinct_map_upt_inj [of "\<lambda>a. verhoeff_d ! a ! x" 10 a b]
  by (simp add: list_all_iff)

lemma p_closed: "x < 10 \<Longrightarrow> verhoeff_p ! (i mod 8) ! x < 10"
proof -
  have "i mod 8 < 8" by simp
  then show "x < 10 \<Longrightarrow> verhoeff_p ! (i mod 8) ! x < 10"
    using verhoeff_p_rows by (simp add: list_all_iff)
qed

lemma p_inj:
  assumes "x < 10" "y < 10" "verhoeff_p ! (i mod 8) ! x = verhoeff_p ! (i mod 8) ! y"
  shows "x = y"
proof -
  have "i mod 8 < 8" by simp
  then have "distinct (map (\<lambda>x. verhoeff_p ! (i mod 8) ! x) [0..<10])"
    using verhoeff_p_rows by (simp add: list_all_iff)
  then show ?thesis
    using assms by (rule distinct_map_upt_inj)
qed

lemma verhoeff_loop_distinct_acc:
  "c < 10 \<Longrightarrow> c' < 10 \<Longrightarrow> c \<noteq> c' \<Longrightarrow> list_all (\<lambda>x. x < 10) xs
     \<Longrightarrow> verhoeff_loop i c xs \<noteq> verhoeff_loop i c' xs"
proof (induction xs arbitrary: i c c')
  case Nil
  then show ?case by simp
next
  case (Cons x xs)
  let ?y = "verhoeff_p ! (i mod 8) ! x"
  have y: "?y < 10" using Cons.prems(4) by (simp add: p_closed)
  have "verhoeff_d ! c ! ?y \<noteq> verhoeff_d ! c' ! ?y"
    using d_right_cancel [OF Cons.prems(1,2) y] Cons.prems(3) by blast
  moreover have "verhoeff_d ! c ! ?y < 10" "verhoeff_d ! c' ! ?y < 10"
    using Cons.prems(1,2) y by (simp_all add: d_closed)
  ultimately show ?case
    using Cons.IH Cons.prems(4) by simp
qed

lemma verhoeff_loop_single_change:
  "c < 10 \<Longrightarrow> list_all (\<lambda>x. x < 10) xs \<Longrightarrow> k < length xs \<Longrightarrow> y < 10 \<Longrightarrow> y \<noteq> xs ! k
     \<Longrightarrow> verhoeff_loop i c (xs[k := y]) \<noteq> verhoeff_loop i c xs"
proof (induction xs arbitrary: i c k)
  case Nil
  then show ?case by simp
next
  case (Cons x xs)
  show ?case
  proof (cases k)
    case 0
    let ?px = "verhoeff_p ! (i mod 8) ! x" and ?py = "verhoeff_p ! (i mod 8) ! y"
    have x: "x < 10" using Cons.prems(2) by simp
    have "y \<noteq> x" using Cons.prems(5) 0 by simp
    then have "?py \<noteq> ?px"
      using p_inj [OF Cons.prems(4) x] by blast
    moreover have px: "?px < 10" and py: "?py < 10"
      using x Cons.prems(4) by (simp_all add: p_closed)
    ultimately have "verhoeff_d ! c ! ?py \<noteq> verhoeff_d ! c ! ?px"
      using d_left_cancel [OF Cons.prems(1) py px] by blast
    moreover have "verhoeff_d ! c ! ?py < 10" "verhoeff_d ! c ! ?px < 10"
      using Cons.prems(1) px py by (simp_all add: d_closed)
    ultimately show ?thesis
      using verhoeff_loop_distinct_acc [of "verhoeff_d ! c ! ?py" "verhoeff_d ! c ! ?px" xs "i + 1"]
        Cons.prems(2) 0
      by simp
  next
    case (Suc j)
    have x: "x < 10" using Cons.prems(2) by simp
    have "verhoeff_d ! c ! (verhoeff_p ! (i mod 8) ! x) < 10"
      using Cons.prems(1) x by (simp add: d_closed p_closed)
    then show ?thesis
      using Cons.IH [of "verhoeff_d ! c ! (verhoeff_p ! (i mod 8) ! x)" j "i + 1"]
        Cons.prems Suc
      by simp
  qed
qed

lemma digit_value_less: "is_digit ch \<Longrightarrow> digit_value ch < 10"
  by (auto simp: is_digit_def digit_value_def)

lemma digit_value_inj:
  assumes "is_digit a" "is_digit b" "digit_value a = digit_value b"
  shows "a = b"
proof -
  have "(of_char a :: nat) = of_char b"
    using assms unfolding is_digit_def digit_value_def by linarith
  then show ?thesis by simp
qed

lemma verhoeff_loop_foldl:
  "verhoeff_loop i c xs
     = foldl (\<lambda>acc (pos, x). verhoeff_d ! acc ! (verhoeff_p ! (pos mod 8) ! x)) c (enumerate i xs)"
  by (induction xs arbitrary: i c) simp_all

lemma verhoeff_accumulator_single_change:
  assumes "list_all is_digit s" "i < length s" "is_digit ch" "ch \<noteq> s ! i"
  shows "verhoeff_accumulator (s[i := ch]) \<noteq> verhoeff_accumulator s"
proof -
  let ?xs = "map digit_value (rev s)" and ?k = "length s - i - 1"
  have k: "?k < length ?xs" using assms(2) by simp
  have digits: "list_all (\<lambda>x. x < 10) ?xs"
    using assms(1) by (auto simp: list_all_iff digit_value_less)
  have old: "?xs ! ?k = digit_value (s ! i)"
    using assms(2) by (simp add: rev_nth)
  have "is_digit (s ! i)"
    using assms(1,2) by (simp add: list_all_length)
  then have differ: "digit_value ch \<noteq> ?xs ! ?k"
    using digit_value_inj [OF assms(3)] assms(4) old by auto
  have upd: "map digit_value (rev (s[i := ch])) = ?xs[?k := digit_value ch]"
    using assms(2) by (simp add: rev_update map_update)
  show ?thesis
    unfolding verhoeff_accumulator_def upd
    using verhoeff_loop_single_change [of 0 ?xs ?k "digit_value ch" 0]
      digits k differ digit_value_less [OF assms(3)]
    by simp
qed

text \<open>
  C3. The Aadhaar validator accepts a string exactly when it has 12 characters, all digits,
  and the accumulator is 0 after the digits, taken right to left, have been sent through
  the permutation row of their position modulo 8 and multiplied in by the D5 table.
  The 12-digit vector 234123412346 is valid. For every valid number, replacing any single
  digit by a different digit gives an invalid one.
\<close>

theorem verhoeff_validator:
  "(validate_aadhaar s \<longleftrightarrow>
      length s = 12 \<and> list_all is_digit s
      \<and> foldl (\<lambda>acc (pos, x). verhoeff_d ! acc ! (verhoeff_p ! (pos mod 8) ! x)) 0
           (enumerate 0 (map digit_value (rev s))) = 0)
   \<and> validate_aadhaar ''234123412346''
   \<and> (validate_aadhaar s \<and> i < 12 \<and> is_digit ch \<and> ch \<noteq> s ! i
        \<longrightarrow> \<not> validate_aadhaar (s[i := ch]))"
proof (intro conjI impI)
  show "validate_aadhaar s \<longleftrightarrow>
      length s = 12 \<and> list_all is_digit s
      \<and> foldl (\<lambda>acc (pos, x). verhoeff_d ! acc ! (verhoeff_p ! (pos mod 8) ! x)) 0
           (enumerate 0 (map digit_value (rev s))) = 0"
    by (auto simp: validate_aadhaar_def verhoeff_accumulator_def verhoeff_loop_foldl)
next
  show "validate_aadhaar ''234123412346''"
    by (simp add: validate_aadhaar_def verhoeff_accumulator_def is_digit_def digit_value_def
        verhoeff_d_def verhoeff_p_def)
next
  assume a: "validate_aadhaar s \<and> i < 12 \<and> is_digit ch \<and> ch \<noteq> s ! i"
  then have len: "length s = 12" and digits: "list_all is_digit s"
    and zero: "verhoeff_accumulator s = 0"
    by (auto simp: validate_aadhaar_def split: if_splits)
  have "verhoeff_accumulator (s[i := ch]) \<noteq> verhoeff_accumulator s"
    using verhoeff_accumulator_single_change [of s i ch] a digits len by simp
  then show "\<not> validate_aadhaar (s[i := ch])"
    using zero by (simp add: validate_aadhaar_def)
qed

theorem verhoeff_validator_witness:
  "validate_aadhaar ''234123412346'' \<and> (11::nat) < 12 \<and> is_digit (CHR ''7'')
   \<and> CHR ''7'' \<noteq> ''234123412346'' ! 11
   \<and> \<not> validate_aadhaar (''234123412346''[11 := CHR ''7''])
   \<and> \<not> validate_aadhaar ''234123412347''"
proof -
  have v: "validate_aadhaar ''234123412346''"
    using verhoeff_validator [of "''234123412346''" 11 "CHR ''7''"] by blast
  have d: "is_digit (CHR ''7'')" by (simp add: is_digit_def)
  have n: "CHR ''7'' \<noteq> ''234123412346'' ! 11" by simp
  have flipped: "\<not> validate_aadhaar (''234123412346''[11 := CHR ''7''])"
    using verhoeff_validator [of "''234123412346''" 11 "CHR ''7''"] v d n by simp
  have "''234123412346''[11 := CHR ''7''] = ''234123412347''" by simp
  with flipped have "\<not> validate_aadhaar ''234123412347''" by simp
  with v d n flipped show ?thesis by simp
qed

section \<open>Properties of the validator stage\<close>

text \<open>The Luhn vectors of section 8: a valid card number, and its last digit incremented.\<close>

lemma luhn_test_vectors:
  "validate_card ''4539148803436467'' \<and> \<not> validate_card ''4539148803436468''
   \<and> validate_card ''4111111111111111''"
  by (simp add: validate_card_def is_digit_def digit_value_def)

lemma validator_stage_filter:
  "validator_stage structural fl meta cs = map (promote fl meta) (filter (validate structural) cs)"
  by (induction cs) simp_all

lemma disambiguate_type: "p_type (disambiguate classify annotate f) = p_type f"
  by (simp add: disambiguate_def Let_def)

lemma disambiguation_stage_types:
  "map p_type (disambiguation_stage use_nlp classify annotate fs) = map p_type fs"
  by (simp add: disambiguation_stage_def disambiguate_type)

lemma scan_source_types:
  "map p_type (scan_source structural fl meta use_nlp classify annotate cs)
     = map ctype (filter (validate structural) cs)"
  by (simp add: scan_source_def disambiguation_stage_types validator_stage_filter promote_def
      comp_def)

text \<open>
  C2. A candidate whose validation fails is dropped: the validator stage, and with it the
  whole scan of the source, gives the same findings as if the candidate had not been
  there, so it reaches neither the disambiguation stage nor the scorer. When every
  candidate of a type fails, the output has no finding of that type. An Aadhaar candidate
  whose length is not 12 or whose Verhoeff accumulator is not 0 fails. The findings of the
  output are as many as the valid candidates.
\<close>

theorem invalid_candidate_dropped:
  "(\<not> validate structural c \<longrightarrow>
      validator_stage structural fl meta (cs @ c # cs') = validator_stage structural fl meta (cs @ cs')
      \<and> scan_source structural fl meta use_nlp classify annotate (cs @ c # cs')
          = scan_source structural fl meta use_nlp classify annotate (cs @ cs'))
   \<and> ((\<forall>c \<in> set cs. ctype c = t \<longrightarrow> \<not> validate structural c) \<longrightarrow>
        t \<notin> p_type ` set (validator_stage structural fl meta cs)
        \<and> t \<notin> p_type ` set (scan_source structural fl meta use_nlp classify annotate cs))
   \<and> (ctype c = Aadhaar \<and> (length (raw_value c) \<noteq> 12 \<or> verhoeff_accumulator (raw_value c) \<noteq> 0)
        \<longrightarrow> \<not> validate structural c)
   \<and> length (scan_source structural fl meta use_nlp classify annotate cs)
        = length (filter (validate structural) cs)"
proof (intro conjI impI)
  assume inv: "\<not> validate structural c"
  then show v: "validator_stage structural fl meta (cs @ c # cs')
      = validator_stage structural fl meta (cs @ cs')"
    by (simp add: validator_stage_filter)
  show "scan_source structural fl meta use_nlp classify annotate (cs @ c # cs')
      = scan_source structural fl meta use_nlp classify annotate (cs @ cs')"
    by (simp add: scan_source_def v)
next
  assume all: "\<forall>c \<in> set cs. ctype c = t \<longrightarrow> \<not> validate structural c"
  then have none: "t \<notin> set (map ctype (filter (validate structural) cs))"
    by auto
  have "map p_type (validator_stage structural fl meta cs)
      = map ctype (filter (validate structural) cs)"
    by (simp add: validator_stage_filter promote_def comp_def)
  with none show "t \<notin> p_type ` set (validator_stage structural fl meta cs)"
    by (metis set_map)
  from none show "t \<notin> p_type ` set (scan_source structural fl meta use_nlp classify annotate cs)"
    by (metis scan_source_types set_map)
next
  assume "ctype c = Aadhaar \<and> (length (raw_value c) \<noteq> 12 \<or> verhoeff_accumulator (raw_value c) \<noteq> 0)"
  then show "\<not> validate structural c"
    by (auto simp: validate_def validate_aadhaar_def)
next
  have "length (scan_source structural fl meta use_nlp classify annotate cs)
      = length (map p_type (scan_source structural fl meta use_nlp classify annotate cs))"
    by simp
  also have "\<dots> = length (filter (validate structural) cs)"
    by (simp only: scan_source_types length_map)
  finally show "length (scan_source structural fl meta use_nlp classify annotate cs)
      = length (filter (validate structural) cs)" .
qed

theorem invalid_candidate_dropped_witness:
  "\<not> validate (\<lambda>t s. True) invalid_aadhaar_candidate
   \<and> ctype invalid_aadhaar_candidate = Aadhaar
   \<and> verhoeff_accumulator (raw_value invalid_aadhaar_candidate) \<noteq> 0
   \<and> scan_source (\<lambda>t s. True) (\<lambda>t. 95 / 100) example_metadata True
        (\<lambda>f s. \<lparr>is_synthetic = False, probability = 0\<rparr>) (\<lambda>v. ''synthetic'')
        [invalid_aadhaar_candidate] = []
   \<and> Aadhaar \<notin> p_type ` set (scan_source (\<lambda>t s. True) (\<lambda>t. 95 / 100) example_metadata True
        (\<lambda>f s. \<lparr>is_synthetic = False, probability = 0\<rparr>) (\<lambda>v. ''synthetic'')
        [invalid_aadhaar_candidate])"
proof -
  let ?st = "\<lambda>(t::EntityType) (s::string). True"
  let ?fl = "\<lambda>t::EntityType. (95 / 100 :: real)"
  let ?cl = "\<lambda>(f::PipelineFinding) (s::string). \<lparr>is_synthetic = False, probability = 0\<rparr>"
  let ?an = "\<lambda>v::DisambiguationVerdict. ''synthetic''"
  note T = invalid_candidate_dropped
    [where structural = ?st and c = invalid_aadhaar_candidate and fl = ?fl
       and meta = example_metadata and cs = "[]" and cs' = "[]" and use_nlp = True
       and classify = ?cl and annotate = ?an and t = Aadhaar]
  note U = invalid_candidate_dropped
    [where structural = ?st and c = invalid_aadhaar_candidate and fl = ?fl
       and meta = example_metadata and cs = "[invalid_aadhaar_candidate]" and cs' = "[]"
       and use_nlp = True and classify = ?cl and annotate = ?an and t = Aadhaar]
  have ty: "ctype invalid_aadhaar_candidate = Aadhaar"
    by (simp add: invalid_aadhaar_candidate_def)
  have acc: "verhoeff_accumulator (raw_value invalid_aadhaar_candidate) \<noteq> 0"
    by (simp add: invalid_aadhaar_candidate_def verhoeff_accumulator_def digit_value_def
        verhoeff_d_def verhoeff_p_def)
  have inv: "\<not> validate ?st invalid_aadhaar_candidate"
    using T ty acc by blast
  have "scan_source ?st ?fl example_metadata True ?cl ?an ([] @ invalid_aadhaar_candidate # [])
      = scan_source ?st ?fl example_metadata True ?cl ?an ([] @ [])"
    using T inv by blast
  then have none: "scan_source ?st ?fl example_metadata True ?cl ?an [invalid_aadhaar_candidate] = []"
    by (simp add: scan_source_def disambiguation_stage_def)
  have "\<forall>c \<in> set [invalid_aadhaar_candidate]. ctype c = Aadhaar \<longrightarrow> \<not> validate ?st c"
    using inv by simp
  then have "Aadhaar \<notin> p_type ` set (scan_source ?st ?fl example_metadata True ?cl ?an
      [invalid_aadhaar_candidate])"
    using U by blast
  with inv ty acc none show ?thesis by blast
qed

section \<open>Properties of the disambiguation filter\<close>

lemma disambiguation_stage_nth:
  "i < length fs \<Longrightarrow>
     disambiguation_stage True classify annotate fs ! i = disambiguate classify annotate (fs ! i)"
  by (simp add: disambiguation_stage_def)

text \<open>
  A finding of the lowest tier whose context is classified synthetic with probability 0.8
  keeps its tier: Low has no tier below it, so its risk is not demoted by one tier (no
  tier's rank is one below that of Low), while its confidence is scaled as for any other.
\<close>

theorem disambiguation_low_tier_counterexample:
  "p_risk dummy_email_finding = Low
   \<and> is_synthetic ((\<lambda>f s. \<lparr>is_synthetic = True, probability = 8 / 10\<rparr>)
        dummy_email_finding (p_snippet dummy_email_finding))
   \<and> probability ((\<lambda>f s. \<lparr>is_synthetic = True, probability = 8 / 10\<rparr>)
        dummy_email_finding (p_snippet dummy_email_finding)) > synthetic_threshold
   \<and> p_risk (disambiguation_stage True (\<lambda>f s. \<lparr>is_synthetic = True, probability = 8 / 10\<rparr>)
        (\<lambda>v. ''synthetic'') [dummy_email_finding] ! 0) = Low
   \<and> tier_rank (p_risk (disambiguation_stage True
        (\<lambda>f s. \<lparr>is_synthetic = True, probability = 8 / 10\<rparr>)
        (\<lambda>v. ''synthetic'') [dummy_email_finding] ! 0)) = tier_rank (p_risk dummy_email_finding)
   \<and> \<not> (\<exists>r. tier_rank r + 1 = tier_rank Low)"
  by (simp add: disambiguation_stage_def disambiguate_def dummy_email_finding_def
      synthetic_threshold_def)

text \<open>
  C6 (amended). With the stage disabled every finding passes through unchanged, and the
  scan gives the validator's findings as they are. With the stage enabled, a finding whose
  context is classified synthetic with a probability above the threshold has its risk
  demoted exactly one tier when it is Critical, High or Medium, and keeps the risk Low when
  it is Low, the lowest tier; its confidence is multiplied by 1 minus the probability, its
  type and masked value are unchanged. A finding not so classified is unchanged. No finding
  is deleted: the stage keeps the length of the list.
\<close>

theorem disambiguation_filter:
  "disambiguation_stage False classify annotate fs = fs
   \<and> scan_source structural fl meta False classify annotate cs
       = validator_stage structural fl meta cs
   \<and> length (disambiguation_stage use_nlp classify annotate fs) = length fs
   \<and> (i < length fs
        \<and> is_synthetic (classify (fs ! i) (p_snippet (fs ! i)))
        \<and> probability (classify (fs ! i) (p_snippet (fs ! i))) > synthetic_threshold \<longrightarrow>
        p_risk (disambiguation_stage True classify annotate fs ! i) = demote_risk (p_risk (fs ! i))
        \<and> (p_risk (fs ! i) \<noteq> Low \<longrightarrow>
             tier_rank (p_risk (disambiguation_stage True classify annotate fs ! i)) + 1
               = tier_rank (p_risk (fs ! i)))
        \<and> (p_risk (fs ! i) = Low \<longrightarrow>
             p_risk (disambiguation_stage True classify annotate fs ! i) = Low)
        \<and> p_confidence (disambiguation_stage True classify annotate fs ! i)
            = p_confidence (fs ! i) * (1 - probability (classify (fs ! i) (p_snippet (fs ! i))))
        \<and> p_type (disambiguation_stage True classify annotate fs ! i) = p_type (fs ! i)
        \<and> p_value_masked (disambiguation_stage True classify annotate fs ! i)
            = p_value_masked (fs ! i))
   \<and> (i < length fs
        \<and> \<not> (is_synthetic (classify (fs ! i) (p_snippet (fs ! i)))
              \<and> probability (classify (fs ! i) (p_snippet (fs ! i))) > synthetic_threshold) \<longrightarrow>
        disambiguation_stage True classify annotate fs ! i = fs ! i)"
proof (intro conjI impI)
  show "disambiguation_stage False classify annotate fs = fs"
    by (simp add: disambiguation_stage_def)
  show "scan_source structural fl meta False classify annotate cs
       = validator_stage structural fl meta cs"
    by (simp add: scan_source_def disambiguation_stage_def)
  show "length (disambiguation_stage use_nlp classify annotate fs) = length fs"
    by (simp add: disambiguation_stage_def)
next
  assume a: "i < length fs
        \<and> \<not> (is_synthetic (classify (fs ! i) (p_snippet (fs ! i)))
              \<and> probability (classify (fs ! i) (p_snippet (fs ! i))) > synthetic_threshold)"
  then show "disambiguation_stage True classify annotate fs ! i = fs ! i"
    by (auto simp: disambiguation_stage_nth disambiguate_def Let_def)
next
  assume a: "i < length fs
        \<and> is_synthetic (classify (fs ! i) (p_snippet (fs ! i)))
        \<and> probability (classify (fs ! i) (p_snippet (fs ! i))) > synthetic_threshold"
  then have eq: "disambiguation_stage True classify annotate fs ! i
      = (fs ! i)\<lparr>p_risk := demote_risk (p_risk (fs ! i)),
          p_confidence := p_confidence (fs ! i)
             * (1 - probability (classify (fs ! i) (p_snippet (fs ! i)))),
          p_annotation := annotate (classify (fs ! i) (p_snippet (fs ! i)))\<rparr>"
    by (simp add: disambiguation_stage_nth disambiguate_def Let_def)
  show "p_risk (disambiguation_stage True classify annotate fs ! i) = demote_risk (p_risk (fs ! i))"
    by (simp add: eq)
  show "p_confidence (disambiguation_stage True classify annotate fs ! i)
            = p_confidence (fs ! i) * (1 - probability (classify (fs ! i) (p_snippet (fs ! i))))"
    by (simp add: eq)
  show "p_type (disambiguation_stage True classify annotate fs ! i) = p_type (fs ! i)"
    by (simp add: eq)
  show "p_value_masked (disambiguation_stage True classify annotate fs ! i)
            = p_value_masked (fs ! i)"
    by (simp add: eq)
  {
    assume "p_risk (fs ! i) \<noteq> Low"
    then show "tier_rank (p_risk (disambiguation_stage True classify annotate fs ! i)) + 1
               = tier_rank (p_risk (fs ! i))"
      by (cases "p_risk (fs ! i)") (simp_all add: eq)
  }
  {
    assume "p_risk (fs ! i) = Low"
    then show "p_risk (disambiguation_stage True classify annotate fs ! i) = Low"
      by (simp add: eq)
  }
qed

theorem disambiguation_filter_witness:
  "(0::nat) < length [test_card_finding]
   \<and> is_synthetic ((\<lambda>f s. \<lparr>is_synthetic = True, probability = 8 / 10\<rparr>)
        ([test_card_finding] ! 0) (p_snippet ([test_card_finding] ! 0)))
   \<and> probability ((\<lambda>f s. \<lparr>is_synthetic = True, probability = 8 / 10\<rparr>)
        ([test_card_finding] ! 0) (p_snippet ([test_card_finding] ! 0))) > synthetic_threshold
   \<and> p_risk test_card_finding = Critical
   \<and> disambiguation_stage False (\<lambda>f s. \<lparr>is_synthetic = True, probability = 8 / 10\<rparr>)
        (\<lambda>v. ''synthetic'') [test_card_finding] = [test_card_finding]
   \<and> p_risk (disambiguation_stage True (\<lambda>f s. \<lparr>is_synthetic = True, probability = 8 / 10\<rparr>)
        (\<lambda>v. ''synthetic'') [test_card_finding] ! 0) = High
   \<and> tier_rank (p_risk (disambiguation_stage True
        (\<lambda>f s. \<lparr>is_synthetic = True, probability = 8 / 10\<rparr>)
        (\<lambda>v. ''synthetic'') [test_card_finding] ! 0)) + 1 = tier_rank (p_risk test_card_finding)
   \<and> p_confidence (disambiguation_stage True (\<lambda>f s. \<lparr>is_synthetic = True, probability = 8 / 10\<rparr>)
        (\<lambda>v. ''synthetic'') [test_card_finding] ! 0) = 18 / 100
   \<and> length (disambiguation_stage True (\<lambda>f s. \<lparr>is_synthetic = True, probability = 8 / 10\<rparr>)
        (\<lambda>v. ''synthetic'') [test_card_finding]) = 1
   \<and> p_risk dummy_email_finding = Low
   \<and> p_risk (disambiguation_stage True (\<lambda>f s. \<lparr>is_synthetic = True, probability = 8 / 10\<rparr>)
        (\<lambda>v. ''synthetic'') [dummy_email_finding] ! 0) = Low
   \<and> p_confidence (disambiguation_stage True (\<lambda>f s. \<lparr>is_synthetic = True, probability = 8 / 10\<rparr>)
        (\<lambda>v. ''synthetic'') [dummy_email_finding] ! 0) = 17 / 100
   \<and> disambiguation_stage True (\<lambda>f s. \<lparr>is_synthetic = False, probability = 1 / 10\<rparr>)
        (\<lambda>v. ''synthetic'') [test_card_finding] ! 0 = test_card_finding"
proof -
  let ?cl = "\<lambda>(f::PipelineFinding) (s::string). \<lparr>is_synthetic = True, probability = 8 / 10\<rparr>"
  let ?real = "\<lambda>(f::PipelineFinding) (s::string). \<lparr>is_synthetic = False, probability = 1 / 10\<rparr>"
  let ?an = "\<lambda>v::DisambiguationVerdict. ''synthetic''"
  let ?out = "disambiguation_stage True ?cl ?an [test_card_finding]"
  let ?low = "disambiguation_stage True ?cl ?an [dummy_email_finding]"
  note T = disambiguation_filter
    [where classify = ?cl and annotate = ?an and fs = "[test_card_finding]"
       and structural = "\<lambda>t s. True" and fl = "\<lambda>t. 0" and meta = example_metadata
       and cs = "[]" and use_nlp = True and i = 0]
  note L = disambiguation_filter
    [where classify = ?cl and annotate = ?an and fs = "[dummy_email_finding]"
       and structural = "\<lambda>t s. True" and fl = "\<lambda>t. 0" and meta = example_metadata
       and cs = "[]" and use_nlp = True and i = 0]
  note R = disambiguation_filter
    [where classify = ?real and annotate = ?an and fs = "[test_card_finding]"
       and structural = "\<lambda>t s. True" and fl = "\<lambda>t. 0" and meta = example_metadata
       and cs = "[]" and use_nlp = True and i = 0]
  have pre: "(0::nat) < length [test_card_finding]
      \<and> is_synthetic (?cl ([test_card_finding] ! 0) (p_snippet ([test_card_finding] ! 0)))
      \<and> probability (?cl ([test_card_finding] ! 0) (p_snippet ([test_card_finding] ! 0)))
          > synthetic_threshold"
    by (simp add: synthetic_threshold_def)
  have crit: "p_risk test_card_finding = Critical"
    by (simp add: test_card_finding_def)
  have notlow: "p_risk ([test_card_finding] ! 0) \<noteq> Low"
    by (simp add: crit)
  have off: "disambiguation_stage False ?cl ?an [test_card_finding] = [test_card_finding]"
    using T by blast
  have risk: "p_risk (?out ! 0) = demote_risk (p_risk ([test_card_finding] ! 0))"
    using T pre by blast
  have rank: "tier_rank (p_risk (?out ! 0)) + 1 = tier_rank (p_risk ([test_card_finding] ! 0))"
    using T pre notlow by blast
  have conf: "p_confidence (?out ! 0) = p_confidence ([test_card_finding] ! 0)
      * (1 - probability (?cl ([test_card_finding] ! 0) (p_snippet ([test_card_finding] ! 0))))"
    using T pre by blast
  have len: "length ?out = length [test_card_finding]"
    using T by blast
  from risk have risk': "p_risk (?out ! 0) = High"
    by (simp add: crit)
  from rank have rank': "tier_rank (p_risk (?out ! 0)) + 1 = tier_rank (p_risk test_card_finding)"
    by simp
  from conf have conf': "p_confidence (?out ! 0) = 18 / 100"
    by (simp add: test_card_finding_def)
  from len have len': "length ?out = 1" by simp
  have lpre: "(0::nat) < length [dummy_email_finding]
      \<and> is_synthetic (?cl ([dummy_email_finding] ! 0) (p_snippet ([dummy_email_finding] ! 0)))
      \<and> probability (?cl ([dummy_email_finding] ! 0) (p_snippet ([dummy_email_finding] ! 0)))
          > synthetic_threshold"
    by (simp add: synthetic_threshold_def)
  have low: "p_risk dummy_email_finding = Low"
    by (simp add: dummy_email_finding_def)
  have islow: "p_risk ([dummy_email_finding] ! 0) = Low"
    by (simp add: low)
  have stays: "p_risk (?low ! 0) = Low"
    using L lpre islow by blast
  have lconf: "p_confidence (?low ! 0) = p_confidence ([dummy_email_finding] ! 0)
      * (1 - probability (?cl ([dummy_email_finding] ! 0) (p_snippet ([dummy_email_finding] ! 0))))"
    using L lpre by blast
  then have lconf': "p_confidence (?low ! 0) = 17 / 100"
    by (simp add: dummy_email_finding_def)
  have rpre: "(0::nat) < length [test_card_finding]
      \<and> \<not> (is_synthetic (?real ([test_card_finding] ! 0) (p_snippet ([test_card_finding] ! 0)))
            \<and> probability (?real ([test_card_finding] ! 0) (p_snippet ([test_card_finding] ! 0)))
                > synthetic_threshold)"
    by simp
  have "disambiguation_stage True ?real ?an [test_card_finding] ! 0 = [test_card_finding] ! 0"
    using R rpre by blast
  then have same: "disambiguation_stage True ?real ?an [test_card_finding] ! 0 = test_card_finding"
    by simp
  show ?thesis
    using pre crit off risk' rank' conf' len' low stays lconf' same by blast
qed

section \<open>Properties of a Finding's value in the outputs\<close>

lemma json_strings_finding:
  "fvalue f \<in> set (json_strings (finding_json f))
   \<and> value_masked f \<in> set (json_strings (finding_json f))"
  by (simp add: finding_json_def)

lemma report_request_strings:
  assumes "f \<in> set (findings r)"
  shows "\<exists>body. report_request r scanType target apiUrl = Some (apiUrl @ ''/report/html'', body)
           \<and> set (json_strings (finding_json f)) \<subseteq> set (json_strings body)"
proof -
  from assms have ne: "findings r \<noteq> []" by auto
  let ?body = "JObject ([(''findings'', JArray (map finding_json (findings r))),
                           (''ess_results'', JArray [])]
                          @ optional_field ''scan_type'' scanType
                          @ optional_field ''target'' target
                          @ [(''files_scanned'', JNumber (total_sources_scanned r))])"
  have "report_request r scanType target apiUrl = Some (apiUrl @ ''/report/html'', ?body)"
    using ne by (simp add: report_request_def handleDownload_def)
  moreover have "set (json_strings (finding_json f)) \<subseteq> set (json_strings ?body)"
    using assms by auto
  ultimately show ?thesis by blast
qed

lemma mask_value_length: "length (mask_value v) = length v"
  by (auto simp: mask_value_def)

lemma mask_value_middle:
  assumes "2 \<le> i" "i + 2 < length v"
  shows "mask_value v ! i = CHR ''*''"
proof -
  from assms have long: "\<not> length v \<le> 4" by simp
  have inner: "i - 2 < length v - 4" using assms by linarith
  have "mask_value v = take 2 v @ (replicate (length v - 4) (CHR ''*'') @ drop (length v - 2) v)"
    using long by (simp add: mask_value_def)
  moreover have "length (take 2 v) = 2" using long by simp
  ultimately have "mask_value v ! i
      = (replicate (length v - 4) (CHR ''*'') @ drop (length v - 2) v) ! (i - 2)"
    using assms(1) by (simp add: nth_append)
  also have "\<dots> = replicate (length v - 4) (CHR ''*'') ! (i - 2)"
    using inner by (simp add: nth_append)
  also have "\<dots> = CHR ''*''"
    using inner by simp
  finally show ?thesis .
qed

lemma disambiguate_masked:
  "p_value_masked (disambiguate classify annotate f) = p_value_masked f"
  by (simp add: disambiguate_def Let_def)

lemma scan_source_masked_values:
  "map p_value_masked (scan_source structural fl meta use_nlp classify annotate cs)
     = map (\<lambda>c. mask_value (raw_value c)) (filter (validate structural) cs)"
  by (simp add: scan_source_def disambiguation_stage_def disambiguate_masked
      validator_stage_filter promote_def comp_def)

lemma scan_source_finding_masked:
  assumes "pf \<in> set (scan_source structural fl meta use_nlp classify annotate cs)"
  shows "\<exists>c \<in> set cs. validate structural c \<and> p_value_masked pf = mask_value (raw_value c)"
proof -
  from assms have "p_value_masked pf
      \<in> set (map p_value_masked (scan_source structural fl meta use_nlp classify annotate cs))"
    by simp
  then have "p_value_masked pf
      \<in> set (map (\<lambda>c. mask_value (raw_value c)) (filter (validate structural) cs))"
    by (simp only: scan_source_masked_values)
  then show ?thesis by auto
qed

text \<open>
  The response of a scan that found one Aadhaar number, and the request the report
  download sends for it from the GitHub tab: the Finding's \<^verbatim>\<open>value\<close> field holds the matched
  number in full, next to its masked form, and the request carries it.
\<close>

theorem report_request_counterexample:
  "value_masked example_finding = mask_value (fvalue example_finding)
   \<and> report_request example_response (Some ''github'') (Some ''octocat/hello'')
        ''http://localhost:8000''
     = Some (''http://localhost:8000/report/html'',
         JObject [(''findings'', JArray [JObject
                     [(''type'', JString ''AADHAAR''),
                      (''value'', JString ''234123412346''),
                      (''value_masked'', JString ''23********46''),
                      (''snippet'', JString ''id: 234123412346''),
                      (''confidence'', JNumber (95 / 100)),
                      (''risk'', JString ''Critical''),
                      (''annotation'', JString []),
                      (''file_path'', JString ''data/users.csv''),
                      (''source'', JString ''data/users.csv''),
                      (''source_url'',
                          JString ''https://github.com/octocat/hello/blob/main/data/users.csv''),
                      (''platform'', JString ''github'')]]),
                  (''ess_results'', JArray []),
                  (''scan_type'', JString ''github''),
                  (''target'', JString ''octocat/hello''),
                  (''files_scanned'', JNumber 1)])"
  by (simp add: report_request_def handleDownload_def example_response_def example_finding_def
      finding_json_def optional_field_def mask_value_def)

text \<open>
  C1 (amended). Every finding the pipeline emits for a source has as its masked value the
  mask of the raw value of a valid candidate of that source: it has the raw value's length
  and, but for the first 2 and the last 2 characters, consists of the masking character.
  The history-save request carries no field of any Finding: it stays the same
  whatever findings, in the same number, the response holds. The API's Finding itself has a
  \<^verbatim>\<open>value\<close> field beside \<^verbatim>\<open>value_masked\<close>, and the report-generation request sends every Finding
  of the scan response with both, as received.
\<close>

theorem finding_value_exposure:
  "(pf \<in> set (scan_source structural fl meta use_nlp classify annotate cs) \<longrightarrow>
      (\<exists>c \<in> set cs. validate structural c
         \<and> p_value_masked pf = mask_value (raw_value c)
         \<and> length (p_value_masked pf) = length (raw_value c)
         \<and> (\<forall>i. 2 \<le> i \<and> i + 2 < length (raw_value c) \<longrightarrow> p_value_masked pf ! i = CHR ''*'')))
   \<and> p_value_masked (promote fl meta cand) = mask_value (raw_value cand)
   \<and> length (mask_value v) = length v
   \<and> (\<forall>i. 2 \<le> i \<and> i + 2 < length v \<longrightarrow> mask_value v ! i = CHR ''*'')
   \<and> (length fs = length (findings r) \<longrightarrow>
        history_item (r\<lparr>findings := fs\<rparr>) scanType target = history_item r scanType target)
   \<and> (f \<in> set (findings r) \<longrightarrow>
        (\<exists>body. report_request r scanType target apiUrl = Some (apiUrl @ ''/report/html'', body)
           \<and> fvalue f \<in> set (json_strings body)
           \<and> value_masked f \<in> set (json_strings body)))"
proof (intro conjI impI allI)
  assume "pf \<in> set (scan_source structural fl meta use_nlp classify annotate cs)"
  then obtain c where c: "c \<in> set cs" "validate structural c"
      "p_value_masked pf = mask_value (raw_value c)"
    using scan_source_finding_masked by blast
  have "length (p_value_masked pf) = length (raw_value c)"
    by (simp add: c(3) mask_value_length)
  moreover have "\<forall>i. 2 \<le> i \<and> i + 2 < length (raw_value c) \<longrightarrow> p_value_masked pf ! i = CHR ''*''"
    by (simp add: c(3) mask_value_middle)
  ultimately show "\<exists>c \<in> set cs. validate structural c
         \<and> p_value_masked pf = mask_value (raw_value c)
         \<and> length (p_value_masked pf) = length (raw_value c)
         \<and> (\<forall>i. 2 \<le> i \<and> i + 2 < length (raw_value c) \<longrightarrow> p_value_masked pf ! i = CHR ''*'')"
    using c by blast
next
  show "p_value_masked (promote fl meta cand) = mask_value (raw_value cand)"
    by (simp add: promote_def)
next
  show "length (mask_value v) = length v"
    by (rule mask_value_length)
next
  fix i assume "2 \<le> i \<and> i + 2 < length v"
  then show "mask_value v ! i = CHR ''*''"
    by (simp add: mask_value_middle)
next
  assume "length fs = length (findings r)"
  then show "history_item (r\<lparr>findings := fs\<rparr>) scanType target = history_item r scanType target"
    by (simp add: history_item_def)
next
  assume "f \<in> set (findings r)"
  from report_request_strings [OF this, of scanType target apiUrl] json_strings_finding [of f]
  show "\<exists>body. report_request r scanType target apiUrl = Some (apiUrl @ ''/report/html'', body)
           \<and> fvalue f \<in> set (json_strings body)
           \<and> value_masked f \<in> set (json_strings body)"
    by blast
qed

theorem finding_value_exposure_witness:
  "promote (\<lambda>t. 95 / 100) example_metadata valid_aadhaar_candidate
     \<in> set (scan_source (\<lambda>t s. True) (\<lambda>t. 95 / 100) example_metadata False
          (\<lambda>f s. \<lparr>is_synthetic = False, probability = 0\<rparr>) (\<lambda>v. ''synthetic'')
          [invalid_aadhaar_candidate, valid_aadhaar_candidate])
   \<and> p_value_masked (promote (\<lambda>t. 95 / 100) example_metadata valid_aadhaar_candidate)
       = ''23********46''
   \<and> (2::nat) \<le> 5 \<and> 5 + 2 < length ''234123412346''
   \<and> mask_value ''234123412346'' ! 5 = CHR ''*''
   \<and> length [example_finding\<lparr>fvalue := ''999911112222''\<rparr>] = length (findings example_response)
   \<and> history_item (example_response\<lparr>findings := [example_finding\<lparr>fvalue := ''999911112222''\<rparr>]\<rparr>)
        (Some ''github'') (Some ''octocat/hello'')
       = history_item example_response (Some ''github'') (Some ''octocat/hello'')
   \<and> example_finding \<in> set (findings example_response)
   \<and> (\<exists>body. report_request example_response (Some ''github'') (Some ''octocat/hello'')
            ''http://localhost:8000''
          = Some (''http://localhost:8000'' @ ''/report/html'', body)
        \<and> fvalue example_finding \<in> set (json_strings body)
        \<and> value_masked example_finding \<in> set (json_strings body))"
proof -
  let ?st = "\<lambda>(t::EntityType) (s::string). True"
  let ?fl = "\<lambda>t::EntityType. (95 / 100 :: real)"
  let ?cl = "\<lambda>(f::PipelineFinding) (s::string). \<lparr>is_synthetic = False, probability = 0\<rparr>"
  let ?an = "\<lambda>v::DisambiguationVerdict. ''synthetic''"
  let ?pf = "promote ?fl example_metadata valid_aadhaar_candidate"
  let ?fs = "[example_finding\<lparr>fvalue := ''999911112222''\<rparr>]"
  note T = finding_value_exposure
    [where pf = ?pf and structural = ?st and fl = ?fl and meta = example_metadata
       and use_nlp = False and classify = ?cl and annotate = ?an
       and cs = "[invalid_aadhaar_candidate, valid_aadhaar_candidate]"
       and cand = valid_aadhaar_candidate and v = "''234123412346''" and r = example_response
       and fs = ?fs and f = example_finding and scanType = "Some ''github''"
       and target = "Some ''octocat/hello''" and apiUrl = "''http://localhost:8000''"]
  have valid: "validate ?st valid_aadhaar_candidate"
    by (simp add: validate_def valid_aadhaar_candidate_def validate_aadhaar_def
        verhoeff_accumulator_def is_digit_def digit_value_def verhoeff_d_def verhoeff_p_def)
  have invalid: "\<not> validate ?st invalid_aadhaar_candidate"
    by (simp add: validate_def invalid_aadhaar_candidate_def validate_aadhaar_def
        verhoeff_accumulator_def is_digit_def digit_value_def verhoeff_d_def verhoeff_p_def)
  have emitted: "?pf \<in> set (scan_source ?st ?fl example_metadata False ?cl ?an
      [invalid_aadhaar_candidate, valid_aadhaar_candidate])"
    using valid invalid by (simp add: scan_source_def disambiguation_stage_def)
  have "p_value_masked ?pf = mask_value (raw_value valid_aadhaar_candidate)"
    using T by blast
  then have masked: "p_value_masked ?pf = ''23********46''"
    by (simp add: valid_aadhaar_candidate_def mask_value_def)
  have pos: "(2::nat) \<le> 5 \<and> 5 + 2 < length ''234123412346''" by simp
  have star: "mask_value ''234123412346'' ! 5 = CHR ''*''"
    using T pos by blast
  have len: "length ?fs = length (findings example_response)"
    by (simp add: example_response_def)
  have hist: "history_item (example_response\<lparr>findings := ?fs\<rparr>)
        (Some ''github'') (Some ''octocat/hello'')
       = history_item example_response (Some ''github'') (Some ''octocat/hello'')"
    using T len by blast
  have mem: "example_finding \<in> set (findings example_response)"
    by (simp add: example_response_def)
  have sent: "\<exists>body. report_request example_response (Some ''github'') (Some ''octocat/hello'')
            ''http://localhost:8000''
          = Some (''http://localhost:8000'' @ ''/report/html'', body)
        \<and> fvalue example_finding \<in> set (json_strings body)
        \<and> value_masked example_finding \<in> set (json_strings body)"
    using T mem by blast
  show ?thesis
    using emitted masked pos star len hist mem sent by blast
qed

lemma dummy_email_masked:
  "p_value_masked dummy_email_finding = mask_value ''test.user@example.com''"
  by (simp add: dummy_email_finding_def mask_value_def)

end
